theory Spec2Isabelle
  imports Main "HOL-Library.Sublist"
begin

section \<open>Python strings\<close>

text \<open>
  A string is a list of characters, each a code point below 256: the texts of the model
  are those of Latin-1, and a text with a code point beyond it is outside the model. On
  these, \<open>str.lower\<close> and \<open>str.strip\<close> act exactly as below. \<open>str.upper\<close> does so
  too, but for three characters whose upper case is not one Latin-1 character (the sharp
  s, the micro sign and y with diaeresis): \<open>upper_char\<close> leaves them as they are, and
  since neither that nor their real upper case is a letter of \<open>DONE\<close>, the one
  comparison in which the source uses \<open>upper\<close> has the same outcome. A falsy string is
  the empty one.
\<close>

definition newline :: string where
  "newline = [CHR 0x0A]"

definition lower_char :: "char \<Rightarrow> char" where
  \<comment> \<open>the capital letters: A to Z, and 0xC0 to 0xDE without the multiplication sign 0xD7\<close>
  "lower_char c =
     (let n = (of_char c :: nat) in
      if (65 \<le> n \<and> n \<le> 90) \<or> (192 \<le> n \<and> n \<le> 214) \<or> (216 \<le> n \<and> n \<le> 222)
      then char_of (n + 32) else c)"

definition upper_char :: "char \<Rightarrow> char" where
  \<comment> \<open>the small letters: a to z, and 0xE0 to 0xFE without the division sign 0xF7\<close>
  "upper_char c =
     (let n = (of_char c :: nat) in
      if (97 \<le> n \<and> n \<le> 122) \<or> (224 \<le> n \<and> n \<le> 246) \<or> (248 \<le> n \<and> n \<le> 254)
      then char_of (n - 32) else c)"

definition lower :: "string \<Rightarrow> string" where
  "lower s = map lower_char s"

definition upper :: "string \<Rightarrow> string" where
  "upper s = map upper_char s"

definition isspace :: "char \<Rightarrow> bool" where
  \<comment> \<open>the characters below 256 for which Python's \<open>str.isspace\<close> holds: tab, line feed,
      vertical tab, form feed, carriage return, 0x1C to 0x1F, the space, the next-line
      character 0x85 and the no-break space 0xA0\<close>
  "isspace c =
     (let n = (of_char c :: nat) in
      (9 \<le> n \<and> n \<le> 13) \<or> (28 \<le> n \<and> n \<le> 32) \<or> n = 133 \<or> n = 160)"

definition strip :: "string \<Rightarrow> string" where
  "strip s = rev (dropWhile isspace (rev (dropWhile isspace s)))"

fun join :: "string \<Rightarrow> string list \<Rightarrow> string" where
  "join sep [] = []"
| "join sep [x] = x"
| "join sep (x # y # ys) = x @ sep @ join sep (y # ys)"

definition digit_char :: "nat \<Rightarrow> char" where
  "digit_char d = char_of (48 + d)"

function str_nat :: "nat \<Rightarrow> string" where
  "str_nat n = (if n < 10 then [digit_char n] else str_nat (n div 10) @ [digit_char (n mod 10)])"
  by pat_completeness auto
termination
  by (relation "measure (\<lambda>n. n)") auto

declare str_nat.simps [simp del]

definition truthy :: "string option \<Rightarrow> bool" where
  \<comment> \<open>\<open>if x:\<close> for a value that is \<open>None\<close> or a \<open>str\<close>\<close>
  "truthy x = (case x of None \<Rightarrow> False | Some s \<Rightarrow> s \<noteq> [])"

section \<open>The collection of the vector store\<close>

text \<open>
  A stored record is a document with its metadata dictionary
  \<open>{"id": content_id, "version_type": version_type}\<close>; the collection keeps its records
  by id, in the order they were added.

  \<open>collection.add\<close> and \<open>collection.query\<close> are calls into the ChromaDB client, which is
  not part of the repository. They are modelled by the client's contract, and what the
  contract leaves open is a parameter of the model.

  \<open>add\<close> inserts a record, or refuses it. It refuses the empty id. It never overwrites:
  for an id the collection already holds, the client either raises a duplicate-id error or
  skips the record without an error, depending on its release; \<open>on_duplicate\<close> chooses
  between the two. Overwriting is a different call of the client (\<open>upsert\<close>), which the
  program does not use. And it may refuse a record for any other reason, a validation or a
  failure of the store, at one call and not at the next: \<open>refuses k id doc md\<close> says
  whether the \<open>k\<close>-th call of \<open>add\<close> in the run (counted from 0) refuses this record.
  Every refusal but the silent skip is an exception, which the source catches.

  \<open>query\<close> ranks the records by the distance between the embeddings of the query text and
  of the document, given by \<open>distance\<close>, and returns the \<open>n_results\<close> nearest, as one list
  of hits per query text. Among records at the same distance the order is the client's:
  \<open>tie_break\<close> ranks the ids for it.
\<close>

record metadata =
  md_id :: string
  md_version_type :: string

record variant =
  document :: string
  meta :: metadata

type_synonym collection = "(string \<times> variant) list"

datatype dup_policy = RaiseOnDuplicate | SkipDuplicate

datatype py_error =
  InvalidIDError | AddError | DuplicateIDError | InvalidNResults | EOFError | IndexError

record 'd query_result =
  documents :: "string list list"
  metadatas :: "metadata list list"
  distances :: "'d list list"

datatype browse_result = GotoRaises | ScreenshotRaises | Loaded "string \<Rightarrow> string list"

text \<open>
  The external collaborators of one run. \<open>browse url\<close> is what the browser session does
  for \<open>url\<close>: \<open>page.goto\<close> raises, \<open>page.screenshot\<close> raises, or the page is loaded, and
  then maps a selector to the inner texts of the elements it matches, in document order.
  \<open>generate k prompt\<close> is the outcome of the \<open>k\<close>-th call of
  \<open>model.generate_content_async\<close> in the run (counted from 0): the \<open>text\<close> of the response,
  or \<open>None\<close> when the call or the access to \<open>response.text\<close> raises.
  \<open>collection_opens\<close> is whether \<open>client.get_or_create_collection\<close> returns.
\<close>

record 'd env =
  browse :: "string \<Rightarrow> browse_result"
  generate :: "nat \<Rightarrow> string \<Rightarrow> string option"
  distance :: "string \<Rightarrow> string \<Rightarrow> 'd"
  tie_break :: "string \<Rightarrow> nat"
  on_duplicate :: dup_policy
  refuses :: "nat \<Rightarrow> string \<Rightarrow> string \<Rightarrow> metadata \<Rightarrow> bool"
  collection_opens :: bool

section \<open>The log and the state of a run\<close>

text \<open>One constructor for each \<open>logging\<close> call of \<open>main.py\<close>, with the values it formats.\<close>

datatype log_entry =
    Stored string string  \<comment> \<open>INFO Content ID '{content_id}' ({version_type}) stored in ChromaDB.\<close>
  | StoreError string  \<comment> \<open>ERROR Error storing content '{content_id}' in ChromaDB\<close>
  | SearchCompleted string  \<comment> \<open>INFO Semantic search for '{query_text}' completed.\<close>
  | SearchError  \<comment> \<open>ERROR Error during semantic search\<close>
  | Navigating string  \<comment> \<open>INFO Navigating to {url}...\<close>
  | ScreenshotSaved  \<comment> \<open>INFO Screenshot saved to {screenshot_path}\<close>
  | Scraped nat  \<comment> \<open>INFO Scraped {len(scraped_text)} characters from the page.\<close>
  | ScrapeError  \<comment> \<open>ERROR Error during scraping or screenshot\<close>
  | SendingSpin nat  \<comment> \<open>INFO Sending text to Gemini for spinning (Iteration {current_iteration})...\<close>
  | SpinComplete nat  \<comment> \<open>INFO Gemini spinning complete. Generated {len(spun_text)} characters.\<close>
  | SpinError  \<comment> \<open>ERROR Error during AI spinning\<close>
  | SendingReview  \<comment> \<open>INFO Sending chapter to Gemini for AI review...\<close>
  | ReviewComplete  \<comment> \<open>INFO Gemini AI review complete.\<close>
  | ReviewError  \<comment> \<open>ERROR Error during AI review\<close>
  | HumanAccepted string  \<comment> \<open>INFO Human accepted chapter {chapter_id}. Storing as 'final'.\<close>
  | HumanEdited string  \<comment> \<open>INFO Human edited chapter {chapter_id}. Storing as 'human_edited'.\<close>
  | HumanRejected string  \<comment> \<open>WARNING Human rejected chapter {chapter_id}. Ending workflow for this chapter.\<close>
  | CollectionReady  \<comment> \<open>INFO ChromaDB collection '{COLLECTION_NAME}' ready.\<close>
  | InitError  \<comment> \<open>ERROR Failed to initialize ChromaDB\<close>
  | ScrapeFailedExit  \<comment> \<open>ERROR Failed to scrape original content. Exiting.\<close>
  | StartingIteration nat  \<comment> \<open>INFO --- Starting Iteration {i} ---\<close>
  | SpinFailedExit nat  \<comment> \<open>ERROR AI spinning failed in iteration {i}. Exiting loop.\<close>
  | RejectedExit nat  \<comment> \<open>WARNING Human rejected chapter in iteration {i}. Ending workflow.\<close>
  | WorkflowComplete  \<comment> \<open>INFO Automated Book Publication Workflow simulation complete.\<close>

text \<open>
  The state a run changes: the records of the one collection (the \<open>collection\<close> argument of
  the source's functions is always this collection), the lines the operator has still to
  type, the numbers of calls made to the generative model and to \<open>collection.add\<close>, and
  the log.
\<close>

record world =
  collection :: collection
  stdin :: "string list"
  gemini_calls :: nat
  add_calls :: nat
  log :: "log_entry list"

definition logging :: "log_entry \<Rightarrow> world \<Rightarrow> world" where
  "logging e w = w\<lparr>log := log w @ [e]\<rparr>"

section \<open>Utility functions\<close>

definition collection_add ::
  "'d env \<Rightarrow> nat \<Rightarrow> string \<Rightarrow> metadata \<Rightarrow> string \<Rightarrow> collection \<Rightarrow> py_error + collection" where
  "collection_add e k doc md cid c =
     (if cid = [] then Inl InvalidIDError
      else if refuses e k cid doc md then Inl AddError
      else if cid \<in> set (map fst c)
      then (case on_duplicate e of RaiseOnDuplicate \<Rightarrow> Inl DuplicateIDError | SkipDuplicate \<Rightarrow> Inr c)
      else Inr (c @ [(cid, \<lparr>document = doc, meta = md\<rparr>)]))"

definition store_content_in_chroma ::
  "'d env \<Rightarrow> string \<Rightarrow> string \<Rightarrow> string \<Rightarrow> world \<Rightarrow> world" where
  \<comment> \<open>\<open>version_type\<close> defaults to "original" in the source; every call passes it\<close>
  "store_content_in_chroma e content_id content_text version_type w =
     (case collection_add e (add_calls w) content_text
             \<lparr>md_id = content_id, md_version_type = version_type\<rparr> content_id (collection w) of
        Inr c' \<Rightarrow>
          logging (Stored content_id version_type)
            (w\<lparr>collection := c', add_calls := Suc (add_calls w)\<rparr>)
      | Inl err \<Rightarrow> logging (StoreError content_id) (w\<lparr>add_calls := Suc (add_calls w)\<rparr>))"

section \<open>The human checkpoint\<close>

text \<open>
  \<open>input()\<close> takes the next line of the operator, and raises \<open>EOFError\<close> when there is
  none. The inner loop of the source collects the lines of an edit up to the sentinel; the
  prints of the checkpoint are not modelled.
\<close>

fun read_edited_lines :: "string list \<Rightarrow> string list \<Rightarrow> py_error + (string list \<times> string list)" where
  "read_edited_lines edited_lines [] = Inl EOFError"
| "read_edited_lines edited_lines (line # rest) =
     (if upper (strip line) = ''DONE'' then Inr (edited_lines, rest)
      else read_edited_lines (edited_lines @ [line]) rest)"

fun checkpoint_loop ::
  "'d env \<Rightarrow> string \<Rightarrow> string \<Rightarrow> string list \<Rightarrow> world \<Rightarrow> (py_error + string option) \<times> world" where
  "checkpoint_loop e ai_generated_text chapter_id [] w = (Inl EOFError, w\<lparr>stdin := []\<rparr>)"
| "checkpoint_loop e ai_generated_text chapter_id (line # rest) w =
     (let action = strip (lower line) in
      if action = ''accept'' then
        (Inr (Some ai_generated_text),
         store_content_in_chroma e (chapter_id @ ''_final'') ai_generated_text ''final''
           (logging (HumanAccepted chapter_id) (w\<lparr>stdin := rest\<rparr>)))
      else if action = ''edit'' then
        (case read_edited_lines [] rest of
           Inl err \<Rightarrow> (Inl err, w\<lparr>stdin := []\<rparr>)
         | Inr (edited_lines, rest') \<Rightarrow>
             (let human_edited_text = join newline edited_lines in
              (Inr (Some human_edited_text),
               store_content_in_chroma e (chapter_id @ ''_human_edited'') human_edited_text
                 ''human_edited'' (logging (HumanEdited chapter_id) (w\<lparr>stdin := rest'\<rparr>)))))
      else if action = ''reject'' then
        (Inr None, logging (HumanRejected chapter_id) (w\<lparr>stdin := rest\<rparr>))
      else checkpoint_loop e ai_generated_text chapter_id rest w)"

definition human_in_the_loop_feedback ::
  "'d env \<Rightarrow> string \<Rightarrow> string \<Rightarrow> world \<Rightarrow> (py_error + string option) \<times> world" where
  "human_in_the_loop_feedback e ai_generated_text chapter_id w =
     checkpoint_loop e ai_generated_text chapter_id (stdin w) w"

section \<open>Semantic search\<close>

definition collection_query ::
  "('d::linorder) env \<Rightarrow> string \<Rightarrow> nat \<Rightarrow> collection \<Rightarrow> py_error + 'd query_result" where
  \<comment> \<open>one query text, hence one list of hits; a result count of 0 is refused by the client\<close>
  "collection_query e query_text n c =
     (if n = 0 then Inl InvalidNResults
      else
        (let hits = take n (sort_key (\<lambda>r. distance e query_text (document (snd r)))
                             (sort_key (\<lambda>r. tie_break e (fst r)) c)) in
         Inr \<lparr>documents = [map (\<lambda>r. document (snd r)) hits],
              metadatas = [map (\<lambda>r. meta (snd r)) hits],
              distances = [map (\<lambda>r. distance e query_text (document (snd r))) hits]\<rparr>))"

definition semantic_search_chroma ::
  "('d::linorder) env \<Rightarrow> string \<Rightarrow> nat option \<Rightarrow> world \<Rightarrow> 'd query_result option \<times> world" where
  \<comment> \<open>\<open>n_results\<close> is the optional argument of the source: \<open>None\<close> when the caller omits it\<close>
  "semantic_search_chroma e query_text n_results w =
     (let n = (case n_results of None \<Rightarrow> 1 | Some k \<Rightarrow> k) in
      case collection_query e query_text n (collection w) of
        Inr results \<Rightarrow> (Some results, logging (SearchCompleted query_text) w)
      | Inl err \<Rightarrow> (None, logging SearchError w))"

section \<open>Main workflow functions\<close>

text \<open>
  The screenshot and the directory it is written to are files outside the state modelled
  here; of \<open>page.screenshot\<close> only its failure is kept.
\<close>

definition scrape_and_screenshot :: "'d env \<Rightarrow> string \<Rightarrow> world \<Rightarrow> string option \<times> world" where
  "scrape_and_screenshot e url w =
     (let w1 = logging (Navigating url) w in
      case browse e url of
        GotoRaises \<Rightarrow> (None, logging ScrapeError w1)
      | ScreenshotRaises \<Rightarrow> (None, logging ScrapeError w1)
      | Loaded query_selector_all \<Rightarrow>
          (let w2 = logging ScreenshotSaved w1;
               content_elements = query_selector_all ''div.mw-parser-output p'';
               content_elements =
                 (if content_elements = [] then query_selector_all ''body p'' else content_elements);
               scraped_text = join newline content_elements
           in (Some scraped_text, logging (Scraped (length scraped_text)) w2)))"

definition generate_content_async :: "'d env \<Rightarrow> string \<Rightarrow> world \<Rightarrow> string option \<times> world" where
  "generate_content_async e prompt w =
     (generate e (gemini_calls w) prompt, w\<lparr>gemini_calls := Suc (gemini_calls w)\<rparr>)"

definition spin_prompt :: "string \<Rightarrow> nat \<Rightarrow> string" where
  "spin_prompt original_text current_iteration =
     ''You are an AI Writer. Rewrite the following chapter text, focusing on creating a more engaging '' @
     ''narrative style. Keep the core information but rephrase and expand where appropriate. '' @
     ''This is iteration '' @ str_nat current_iteration @ ''. Only provide the rewritten text.'' @
     newline @ newline @ ''Original Chapter:'' @ newline @ original_text"

definition review_prompt :: "string \<Rightarrow> string" where
  "review_prompt chapter_text =
     ''You are an AI Reviewer. Analyze the following chapter text for clarity, coherence, grammar, '' @
     ''and engagement. Provide constructive feedback to improve it. Start with a summary of its strengths '' @
     ''and then list specific areas for improvement. Focus on the content itself, not just grammar.'' @
     newline @ newline @ ''Chapter to Review:'' @ newline @ chapter_text"

definition ai_spin_chapter :: "'d env \<Rightarrow> string \<Rightarrow> nat \<Rightarrow> world \<Rightarrow> string option \<times> world" where
  "ai_spin_chapter e original_text current_iteration w =
     (if original_text = [] then (None, w)
      else
        (let prompt = spin_prompt original_text current_iteration;
             w1 = logging (SendingSpin current_iteration) w;
             (response, w2) = generate_content_async e prompt w1
         in case response of
              Some spun_text \<Rightarrow> (Some spun_text, logging (SpinComplete (length spun_text)) w2)
            | None \<Rightarrow> (None, logging SpinError w2)))"

definition ai_review_chapter :: "'d env \<Rightarrow> string \<Rightarrow> world \<Rightarrow> string option \<times> world" where
  "ai_review_chapter e chapter_text w =
     (if chapter_text = [] then (None, w)
      else
        (let prompt = review_prompt chapter_text;
             w1 = logging SendingReview w;
             (response, w2) = generate_content_async e prompt w1
         in case response of
              Some review_text \<Rightarrow> (Some review_text, logging ReviewComplete w2)
            | None \<Rightarrow> (None, logging ReviewError w2)))"

section \<open>The orchestrator\<close>

definition target_url :: string where
  "target_url = ''https://en.wikisource.org/wiki/The_Gates_Of_Morning/Book_1/Chapter_1''"

definition chapter_id_base :: string where
  "chapter_id_base = ''gates_of_morning_ch1''"

definition num_iterations :: nat where
  "num_iterations = 2"

definition search_query :: string where
  "search_query = ''What happens to the protagonist in the beginning?''"

text \<open>
  The ids and the tag that \<open>main\<close> formats: \<open>f"{chapter_id_base}_original"\<close>,
  \<open>f"{chapter_id_base}_ai_spun_iter_{i}"\<close>, \<open>f"ai_spun_iter_{i}"\<close>, and
  \<open>f"{chapter_id_base}_iter_{i}"\<close>, which it passes to the checkpoint as \<open>chapter_id\<close>.
\<close>

definition original_id :: string where
  "original_id = chapter_id_base @ ''_original''"

definition ai_spun_id :: "nat \<Rightarrow> string" where
  "ai_spun_id i = chapter_id_base @ ''_ai_spun_iter_'' @ str_nat i"

definition ai_spun_tag :: "nat \<Rightarrow> string" where
  "ai_spun_tag i = ''ai_spun_iter_'' @ str_nat i"

definition iteration_id :: "nat \<Rightarrow> string" where
  "iteration_id i = chapter_id_base @ ''_iter_'' @ str_nat i"

text \<open>
  One pass through the body of \<open>for i in range(1, num_iterations + 1)\<close>: it ends with
  the next \<open>current_chapter_text\<close>, with a \<open>break\<close>, or with an exception. The
  reviewer's feedback is only printed.
\<close>

datatype iteration_end = Continue string | Break | Raised py_error

definition iteration :: "'d env \<Rightarrow> string \<Rightarrow> nat \<Rightarrow> world \<Rightarrow> iteration_end \<times> world" where
  "iteration e current_chapter_text i w =
     (let w1 = logging (StartingIteration i) w;
          (ai_spun_text, w2) = ai_spin_chapter e current_chapter_text i w1
      in if \<not> truthy ai_spun_text
         then (Break, logging (SpinFailedExit i) w2)
         else
           (let spun = the ai_spun_text;
                w3 = store_content_in_chroma e (ai_spun_id i) spun (ai_spun_tag i) w2;
                (ai_review_feedback, w4) = ai_review_chapter e spun w3;
                (human_decision_text, w5) = human_in_the_loop_feedback e spun (iteration_id i) w4
            in case human_decision_text of
                 Inl err \<Rightarrow> (Raised err, w5)
               | Inr decision \<Rightarrow>
                   if truthy decision then (Continue (the decision), w5)
                   else (Break, logging (RejectedExit i) w5)))"

text \<open>
  The loop over the indices still to run. The value returned with the state is
  \<open>current_chapter_text\<close> when the loop is left.
\<close>

fun main_loop ::
  "'d env \<Rightarrow> string \<Rightarrow> nat list \<Rightarrow> world \<Rightarrow> (py_error + string) \<times> world" where
  "main_loop e current_chapter_text [] w = (Inr current_chapter_text, w)"
| "main_loop e current_chapter_text (i # is) w =
     (case iteration e current_chapter_text i w of
        (Continue human_decision_text, w') \<Rightarrow> main_loop e human_decision_text is w'
      | (Break, w') \<Rightarrow> (Inr current_chapter_text, w')
      | (Raised err, w') \<Rightarrow> (Inl err, w'))"

text \<open>
  What \<open>main\<close> prints for the search: one block for each element \<open>doc\<close> of
  \<open>search_results['documents']\<close>, that is for each query text, with the metadata and the
  distance of the first hit, and \<open>doc[:200]\<close>, the first 200 documents of that list of hits.
  Indexing an empty list of hits raises \<open>IndexError\<close>.
\<close>

record 'd printed_result =
  result_number :: nat
  result_distance :: 'd
  result_id :: string
  result_version_type :: string
  content_snippet :: "string list"

datatype 'd search_report = Results "'d printed_result list" | NoResults

definition subscript :: "'a list \<Rightarrow> nat \<Rightarrow> py_error + 'a" where
  "subscript xs i = (if i < length xs then Inr (xs ! i) else Inl IndexError)"

fun print_results ::
  "'d query_result \<Rightarrow> nat \<Rightarrow> string list list \<Rightarrow> py_error + 'd printed_result list" where
  "print_results search_results j [] = Inr []"
| "print_results search_results j (doc # docs) =
     (case subscript (metadatas search_results) j of
        Inl err \<Rightarrow> Inl err
      | Inr mds \<Rightarrow>
     (case subscript mds 0 of
        Inl err \<Rightarrow> Inl err
      | Inr md \<Rightarrow>
     (case subscript (distances search_results) j of
        Inl err \<Rightarrow> Inl err
      | Inr ds \<Rightarrow>
     (case subscript ds 0 of
        Inl err \<Rightarrow> Inl err
      | Inr dist \<Rightarrow>
     (case print_results search_results (Suc j) docs of
        Inl err \<Rightarrow> Inl err
      | Inr printed \<Rightarrow>
          Inr (\<lparr>result_number = j + 1, result_distance = dist, result_id = md_id md,
                result_version_type = md_version_type md, content_snippet = take 200 doc\<rparr>
               # printed))))))"

definition print_search :: "'d query_result option \<Rightarrow> py_error + 'd search_report" where
  "print_search search_results =
     (case search_results of
        None \<Rightarrow> Inr NoResults
      | Some res \<Rightarrow>
          if documents res = [] then Inr NoResults
          else (case print_results res 0 (documents res) of
                  Inl err \<Rightarrow> Inl err
                | Inr printed \<Rightarrow> Inr (Results printed)))"

datatype 'd run_end = InitFailed | ScrapeFailed | Completed "'d search_report"

text \<open>
  \<open>main\<close> with the number of iterations as a parameter; the source fixes it to
  \<open>num_iterations\<close>. The result is how the run ends: with an exception that nothing
  catches, or with one of the two early returns, or after the search with what was printed
  for it. The configuration at module level (the API key, without which the program exits
  before \<open>main\<close>) is taken to have succeeded.
\<close>

definition main_with ::
  "nat \<Rightarrow> ('d::linorder) env \<Rightarrow> world \<Rightarrow> (py_error + 'd run_end) \<times> world" where
  "main_with n e w =
     (if \<not> collection_opens e then (Inr InitFailed, logging InitError w)
      else
        (let w1 = logging CollectionReady w;
             (original_chapter_text, w2) = scrape_and_screenshot e target_url w1
         in if \<not> truthy original_chapter_text
            then (Inr ScrapeFailed, logging ScrapeFailedExit w2)
            else
              (let original = the original_chapter_text;
                   w3 = store_content_in_chroma e original_id original ''original'' w2;
                   (looped, w4) = main_loop e original [1 ..< Suc n] w3
               in case looped of
                    Inl err \<Rightarrow> (Inl err, w4)
                  | Inr current_chapter_text \<Rightarrow>
                      (let (search_results, w5) = semantic_search_chroma e search_query None w4
                       in case print_search search_results of
                            Inl err \<Rightarrow> (Inl err, w5)
                          | Inr report \<Rightarrow> (Inr (Completed report), logging WorkflowComplete w5)))))"

definition main :: "('d::linorder) env \<Rightarrow> world \<Rightarrow> (py_error + 'd run_end) \<times> world" where
  "main e w = main_with num_iterations e w"

section \<open>Observations on a run\<close>

text \<open>
  The collection after a call of \<open>store_content_in_chroma\<close>, whatever the client does for a
  duplicate id.
\<close>

definition add_if_absent :: "string \<Rightarrow> string \<Rightarrow> string \<Rightarrow> collection \<Rightarrow> collection" where
  "add_if_absent cid t v c =
     (if cid \<in> fst ` set c then c
      else c @ [(cid, \<lparr>document = t, meta = \<lparr>md_id = cid, md_version_type = v\<rparr>\<rparr>)])"

text \<open>
  The ids of the calls of \<open>store_content_in_chroma\<close> that a log records: every call logs
  one line, with its id, whether the client took the record or raised.
\<close>

fun store_call :: "log_entry \<Rightarrow> string list" where
  "store_call (Stored cid v) = [cid]"
| "store_call (StoreError cid) = [cid]"
| "store_call _ = []"

definition store_calls :: "log_entry list \<Rightarrow> string list" where
  "store_calls l = concat (map store_call l)"

text \<open>
  The ids under which the checkpoint of iteration \<open>i\<close> stores: it appends \<open>_final\<close> or
  \<open>_human_edited\<close> to the \<open>chapter_id\<close> it is given. \<open>pipeline_ids n\<close> lists all ids
  that a run of \<open>n\<close> iterations can format, in the order of the calls.
\<close>

definition final_id :: "nat \<Rightarrow> string" where
  "final_id i = iteration_id i @ ''_final''"

definition human_edited_id :: "nat \<Rightarrow> string" where
  "human_edited_id i = iteration_id i @ ''_human_edited''"

definition iteration_ids :: "nat \<Rightarrow> string list" where
  "iteration_ids i = [ai_spun_id i, final_id i, human_edited_id i]"

definition pipeline_ids :: "nat \<Rightarrow> string list" where
  "pipeline_ids n = original_id # concat (map iteration_ids [1 ..< Suc n])"

text \<open>
  A client that refuses no record for a reason of its own: what it refuses is the empty id,
  and the id the collection holds.
\<close>

definition accepting :: "'d env \<Rightarrow> bool" where
  "accepting e \<longleftrightarrow> (\<forall>k cid doc md. \<not> refuses e k cid doc md)"

text \<open>
  Between two states of a run, the calls of the store were those for the ids \<open>l\<close>: the
  collection kept the ids it had and gained none but these, and with a client that refuses
  no record it gained all of them.
\<close>

definition stores_between :: "'d env \<Rightarrow> world \<Rightarrow> world \<Rightarrow> string list \<Rightarrow> bool" where
  "stores_between e w w' l \<longleftrightarrow>
     store_calls (log w') = store_calls (log w) @ l \<and>
     fst ` set (collection w) \<subseteq> fst ` set (collection w') \<and>
     fst ` set (collection w') \<subseteq> fst ` set (collection w) \<union> set l \<and>
     (accepting e \<longrightarrow> fst ` set (collection w') = fst ` set (collection w) \<union> set l)"

text \<open>The value of a decimal string, to read back what \<open>str_nat\<close> wrote.\<close>

definition digit_value :: "char \<Rightarrow> nat" where
  "digit_value c = of_char c - 48"

definition nat_of_str :: "string \<Rightarrow> nat" where
  "nat_of_str s = foldl (\<lambda>a c. 10 * a + digit_value c) 0 s"

text \<open>
  The naming convention for ids as the specification words it,
  \<open>{base}_{stage}[_iter_{n}]\<close>: the base, an underscore, one of the stage labels, and
  optionally \<open>_iter_\<close> with a decimal number.
\<close>

definition stage_labels :: "string list" where
  "stage_labels = [''original'', ''ai_spun'', ''human_edited'', ''final'']"

fun strip_prefix :: "string \<Rightarrow> string \<Rightarrow> string option" where
  "strip_prefix [] s = Some s"
| "strip_prefix (p # ps) [] = None"
| "strip_prefix (p # ps) (c # cs) = (if p = c then strip_prefix ps cs else None)"

definition is_decimal :: "string \<Rightarrow> bool" where
  "is_decimal s \<longleftrightarrow> s \<noteq> [] \<and> list_all (\<lambda>c. c \<in> set ''0123456789'') s"

definition follows_convention :: "string \<Rightarrow> string \<Rightarrow> bool" where
  "follows_convention base cid \<longleftrightarrow>
     list_ex (\<lambda>stage.
        case strip_prefix (base @ ''_'' @ stage) cid of
          None \<Rightarrow> False
        | Some rest \<Rightarrow>
            rest = [] \<or>
            (case strip_prefix ''_iter_'' rest of None \<Rightarrow> False | Some n \<Rightarrow> is_decimal n))
       stage_labels"

text \<open>
  The iterations for which a log records \<open>AI spinning failed in iteration {i}\<close>.
\<close>

fun spin_exit :: "log_entry \<Rightarrow> nat list" where
  "spin_exit (SpinFailedExit i) = [i]"
| "spin_exit _ = []"

definition spin_exits :: "log_entry list \<Rightarrow> nat list" where
  "spin_exits l = concat (map spin_exit l)"

text \<open>
  A sample of the external collaborators, for concrete runs: a page whose paragraphs are found
  only by the generic selector, a model whose third call fails, the length of a document as
  its distance to any query, a client that refuses no record but the empty or the held id,
  and an empty collection at the start.
\<close>

definition sample_page :: "string \<Rightarrow> string list" where
  "sample_page selector = (if selector = ''body p'' then [''Once'', ''upon a time''] else [])"

definition sample_env :: "nat env" where
  "sample_env =
     \<lparr>browse = (\<lambda>url. Loaded sample_page),
      generate = (\<lambda>k prompt. if k = 2 then None else Some ''A spun chapter''),
      distance = (\<lambda>query_text doc. length doc),
      tie_break = (\<lambda>cid. 0),
      on_duplicate = RaiseOnDuplicate,
      refuses = (\<lambda>k cid doc md. False),
      collection_opens = True\<rparr>"

definition sample_world :: "string list \<Rightarrow> world" where
  "sample_world lines =
     \<lparr>collection = [], stdin = lines, gemini_calls = 0, add_calls = 0, log = []\<rparr>"

text \<open>The sample with a model that answers every call.\<close>

definition steady_env :: "nat env" where
  "steady_env = sample_env\<lparr>generate := (\<lambda>k prompt. Some ''A spun chapter'')\<rparr>"

text \<open>A client whose first call of \<open>add\<close> fails, and no later one.\<close>

definition flaky_env :: "nat env" where
  "flaky_env = sample_env\<lparr>refuses := (\<lambda>k cid doc md. k = 0)\<rparr>"

text \<open>
  States as a later run of the program finds them: the collection persists on disk, and
  holds what earlier runs, or other programs, stored. In the first the collection holds
  a human edit of iteration 1, and the operator edits again.
\<close>

definition stocked_world :: world where
  "stocked_world =
     \<lparr>collection = [(''gates_of_morning_ch1_iter_1_human_edited'',
                      \<lparr>document = ''An earlier edit'',
                         meta = \<lparr>md_id = ''gates_of_morning_ch1_iter_1_human_edited'',
                                 md_version_type = ''human_edited''\<rparr>\<rparr>)],
      stdin = [''edit'', ''A later edit'', ''done''], gemini_calls = 0, add_calls = 0, log = []\<rparr>"

definition held_final_world :: world where
  "held_final_world =
     \<lparr>collection = [(''ch_iter_1_final'',
                      \<lparr>document = ''An earlier text'',
                         meta = \<lparr>md_id = ''ch_iter_1_final'', md_version_type = ''final''\<rparr>\<rparr>)],
      stdin = [''accept''], gemini_calls = 0, add_calls = 0, log = []\<rparr>"

definition held_edit_world :: world where
  "held_edit_world =
     \<lparr>collection = [(''ch_iter_1_human_edited'',
                      \<lparr>document = ''An earlier edit'',
                         meta = \<lparr>md_id = ''ch_iter_1_human_edited'',
                                 md_version_type = ''human_edited''\<rparr>\<rparr>)],
      stdin = [''edit'', ''Hello'', ''World'', ''DONE''], gemini_calls = 0, add_calls = 0,
      log = []\<rparr>"


definition older_world :: world where
  "older_world =
     \<lparr>collection = [(''an_older_id'',
                      \<lparr>document = ''An older text'',
                         meta = \<lparr>md_id = ''an_older_id'', md_version_type = ''original''\<rparr>\<rparr>)],
      stdin = [''edit'', ''A new line'', ''done''], gemini_calls = 0, add_calls = 0, log = []\<rparr>"

section \<open>Basic facts\<close>

lemma collection_logging [simp]: "collection (logging x w) = collection w"
  by (simp add: logging_def)

lemma stdin_logging [simp]: "stdin (logging x w) = stdin w"
  by (simp add: logging_def)

lemma gemini_calls_logging [simp]: "gemini_calls (logging x w) = gemini_calls w"
  by (simp add: logging_def)

lemma log_logging [simp]: "log (logging x w) = log w @ [x]"
  by (simp add: logging_def)

lemma add_calls_logging [simp]: "add_calls (logging x w) = add_calls w"
  by (simp add: logging_def)

lemma collection_store:
  "collection (store_content_in_chroma e cid t v w) =
     (if cid \<noteq> [] \<and> \<not> refuses e (add_calls w) cid t \<lparr>md_id = cid, md_version_type = v\<rparr>
      then add_if_absent cid t v (collection w) else collection w)"
  by (cases "on_duplicate e")
     (auto simp: store_content_in_chroma_def collection_add_def add_if_absent_def)

lemma collection_store_accepting:
  "accepting e \<Longrightarrow> cid \<noteq> [] \<Longrightarrow>
   collection (store_content_in_chroma e cid t v w) = add_if_absent cid t v (collection w)"
  by (simp add: collection_store accepting_def)

lemma add_calls_store [simp]:
  "add_calls (store_content_in_chroma e cid t v w) = Suc (add_calls w)"
  by (simp add: store_content_in_chroma_def split: sum.splits)

lemma stdin_store [simp]: "stdin (store_content_in_chroma e cid t v w) = stdin w"
  by (simp add: store_content_in_chroma_def split: sum.splits)

lemma gemini_calls_store [simp]:
  "gemini_calls (store_content_in_chroma e cid t v w) = gemini_calls w"
  by (simp add: store_content_in_chroma_def split: sum.splits)

lemma store_calls_append [simp]: "store_calls (l @ l') = store_calls l @ store_calls l'"
  by (simp add: store_calls_def)

lemma store_calls_Nil [simp]: "store_calls [] = []"
  by (simp add: store_calls_def)

lemma store_calls_single [simp]: "store_calls [x] = store_call x"
  by (simp add: store_calls_def)

lemma store_calls_store:
  "store_calls (log (store_content_in_chroma e cid t v w)) = store_calls (log w) @ [cid]"
  by (simp add: store_content_in_chroma_def split: sum.splits)

lemma checkpoint_skip:
  "\<forall>l \<in> set junk. strip (lower l) \<notin> {''accept'', ''edit'', ''reject''} \<Longrightarrow>
   checkpoint_loop e t cid (junk @ ls) w = checkpoint_loop e t cid ls w"
  by (induction junk) (simp_all add: Let_def)

lemma read_edited_lines_sentinel:
  "\<forall>l \<in> set ls. upper (strip l) \<noteq> ''DONE'' \<Longrightarrow> upper (strip s) = ''DONE'' \<Longrightarrow>
   read_edited_lines acc (ls @ s # rest) = Inr (acc @ ls, rest)"
  by (induction ls arbitrary: acc) simp_all

section \<open>The steps of a run, unfolded\<close>

lemma iteration_unfold:
  "iteration e cur i w =
     (let s = ai_spin_chapter e cur i (logging (StartingIteration i) w) in
      if \<not> truthy (fst s) then (Break, logging (SpinFailedExit i) (snd s))
      else
        (let w3 = store_content_in_chroma e (ai_spun_id i) (the (fst s)) (ai_spun_tag i) (snd s);
             w4 = snd (ai_review_chapter e (the (fst s)) w3);
             h = human_in_the_loop_feedback e (the (fst s)) (iteration_id i) w4
         in case fst h of
              Inl err \<Rightarrow> (Raised err, snd h)
            | Inr decision \<Rightarrow>
                if truthy decision then (Continue (the decision), snd h)
                else (Break, logging (RejectedExit i) (snd h))))"
  by (simp add: iteration_def Let_def case_prod_beta)

lemma main_with_unfold:
  "main_with n e w =
     (if \<not> collection_opens e then (Inr InitFailed, logging InitError w)
      else
        (let s = scrape_and_screenshot e target_url (logging CollectionReady w) in
         if \<not> truthy (fst s) then (Inr ScrapeFailed, logging ScrapeFailedExit (snd s))
         else
           (let w3 = store_content_in_chroma e original_id (the (fst s)) ''original'' (snd s);
                l = main_loop e (the (fst s)) [1 ..< Suc n] w3
            in case fst l of
                 Inl err \<Rightarrow> (Inl err, snd l)
               | Inr current_chapter_text \<Rightarrow>
                   (let q = semantic_search_chroma e search_query None (snd l) in
                    case print_search (fst q) of
                      Inl err \<Rightarrow> (Inl err, snd q)
                    | Inr report \<Rightarrow> (Inr (Completed report), logging WorkflowComplete (snd q))))))"
  by (simp add: main_with_def Let_def case_prod_beta del: upt_Suc split: sum.splits)

lemma main_loop_Cons:
  "main_loop e cur (i # is) w =
     (let s = iteration e cur i w in
      case fst s of
        Continue t \<Rightarrow> main_loop e t is (snd s)
      | Break \<Rightarrow> (Inr cur, snd s)
      | Raised err \<Rightarrow> (Inl err, snd s))"
  by (simp add: Let_def case_prod_beta)

section \<open>The collection only grows\<close>

lemma prefix_add_if_absent: "prefix c (add_if_absent cid t v c)"
  by (simp add: add_if_absent_def)

lemma prefix_store:
  "prefix c (collection w) \<Longrightarrow> prefix c (collection (store_content_in_chroma e cid t v w))"
  by (auto simp: collection_store add_if_absent_def)

lemma map_of_prefix: "prefix c c' \<Longrightarrow> map_of c k = Some r \<Longrightarrow> map_of c' k = Some r"
  by (auto simp: prefix_def map_of_append)

lemma collection_ai_spin [simp]: "collection (snd (ai_spin_chapter e t i w)) = collection w"
  by (simp add: ai_spin_chapter_def generate_content_async_def Let_def split: option.splits)

lemma collection_ai_review [simp]: "collection (snd (ai_review_chapter e t w)) = collection w"
  by (simp add: ai_review_chapter_def generate_content_async_def Let_def split: option.splits)

lemma collection_scrape [simp]: "collection (snd (scrape_and_screenshot e url w)) = collection w"
  by (simp add: scrape_and_screenshot_def Let_def split: browse_result.splits)

lemma collection_search [simp]: "collection (snd (semantic_search_chroma e q n w)) = collection w"
  by (simp add: semantic_search_chroma_def Let_def split: sum.splits)

lemma prefix_checkpoint_loop:
  "prefix c (collection w) \<Longrightarrow> prefix c (collection (snd (checkpoint_loop e t cid ls w)))"
  by (induction ls) (auto simp: Let_def prefix_store split: sum.splits prod.splits)

lemma prefix_checkpoint:
  "prefix c (collection w) \<Longrightarrow> prefix c (collection (snd (human_in_the_loop_feedback e t cid w)))"
  by (simp add: human_in_the_loop_feedback_def prefix_checkpoint_loop)

lemma prefix_iteration:
  "prefix c (collection w) \<Longrightarrow> prefix c (collection (snd (iteration e cur i w)))"
  by (simp add: iteration_unfold Let_def prefix_store prefix_checkpoint split: sum.splits)

lemma prefix_main_loop:
  "prefix c (collection w) \<Longrightarrow> prefix c (collection (snd (main_loop e cur is w)))"
proof (induction "is" arbitrary: cur w)
  case Nil
  then show ?case by simp
next
  case (Cons i "is")
  have "prefix c (collection (snd (iteration e cur i w)))"
    using Cons.prems by (rule prefix_iteration)
  then show ?case
    using Cons.IH by (simp add: main_loop_Cons Let_def del: main_loop.simps split: iteration_end.splits)
qed

lemma prefix_main_with:
  "prefix c (collection w) \<Longrightarrow> prefix c (collection (snd (main_with n e w)))"
  by (simp add: main_with_unfold Let_def prefix_store prefix_main_loop split: sum.splits del: upt_Suc)

section \<open>Decimal strings and the ids\<close>

lemma digit_value_digit_char: "d < 10 \<Longrightarrow> digit_value (digit_char d) = d"
  by (simp add: digit_value_def digit_char_def)

lemma nat_of_str_str_nat: "nat_of_str (str_nat n) = n"
proof (induction n rule: str_nat.induct)
  case (1 n)
  show ?case
  proof (cases "n < 10")
    case True
    then show ?thesis
      by (subst str_nat.simps) (simp add: nat_of_str_def digit_value_digit_char)
  next
    case False
    then have "nat_of_str (str_nat (n div 10)) = n div 10"
      using 1 by simp
    then show ?thesis
      using False
      by (subst str_nat.simps) (simp add: nat_of_str_def digit_value_digit_char)
  qed
qed

lemma str_nat_inj: "str_nat i = str_nat j \<longleftrightarrow> i = j"
  by (metis nat_of_str_str_nat)

lemma ai_spun_id_eq [simp]: "ai_spun_id i = ai_spun_id j \<longleftrightarrow> i = j"
  by (simp add: ai_spun_id_def str_nat_inj)

lemma final_id_eq [simp]: "final_id i = final_id j \<longleftrightarrow> i = j"
  by (simp add: final_id_def iteration_id_def str_nat_inj)

lemma human_edited_id_eq [simp]: "human_edited_id i = human_edited_id j \<longleftrightarrow> i = j"
  by (simp add: human_edited_id_def iteration_id_def str_nat_inj)

lemma ai_spun_id_neq [simp]:
  "ai_spun_id i \<noteq> final_id j" "ai_spun_id i \<noteq> human_edited_id j" "ai_spun_id i \<noteq> original_id"
  "final_id j \<noteq> ai_spun_id i" "human_edited_id j \<noteq> ai_spun_id i" "original_id \<noteq> ai_spun_id i"
  by (simp_all add: ai_spun_id_def final_id_def human_edited_id_def iteration_id_def original_id_def)

lemma original_id_neq [simp]:
  "original_id \<noteq> final_id j" "original_id \<noteq> human_edited_id j"
  "final_id j \<noteq> original_id" "human_edited_id j \<noteq> original_id"
  by (simp_all add: final_id_def human_edited_id_def iteration_id_def original_id_def)

lemma final_id_neq_human_edited_id [simp]:
  "final_id i \<noteq> human_edited_id j" "human_edited_id j \<noteq> final_id i"
proof -
  have "last (final_id i) = CHR ''l''" "last (human_edited_id j) = CHR ''d''"
    by (simp_all add: final_id_def human_edited_id_def)
  then show "final_id i \<noteq> human_edited_id j" "human_edited_id j \<noteq> final_id i"
    by auto
qed

lemma distinct_iteration_ids: "distinct (iteration_ids i)"
  by (simp add: iteration_ids_def)

lemma iteration_ids_disjoint: "i \<noteq> j \<Longrightarrow> set (iteration_ids i) \<inter> set (iteration_ids j) = {}"
  by (simp add: iteration_ids_def)

lemma distinct_concat_iteration_ids: "distinct is \<Longrightarrow> distinct (concat (map iteration_ids is))"
proof (induction "is")
  case Nil
  then show ?case by simp
next
  case (Cons i "is")
  have "set (iteration_ids i) \<inter> set (iteration_ids j) = {}" if "j \<in> set is" for j
    using that Cons.prems by (intro iteration_ids_disjoint) auto
  then show ?case
    using Cons by (auto simp: distinct_iteration_ids)
qed

lemma original_id_not_iteration_id: "original_id \<notin> set (iteration_ids i)"
  by (simp add: iteration_ids_def)

lemma distinct_pipeline_ids: "distinct (pipeline_ids n)"
  using original_id_not_iteration_id
  by (auto simp: pipeline_ids_def distinct_concat_iteration_ids simp del: upt_Suc)

section \<open>The calls of the store in a run\<close>

lemma store_calls_Cons [simp]: "store_calls (x # l) = store_call x @ store_calls l"
  by (simp add: store_calls_def)

lemma stores_between_refl: "stores_between e w w []"
  by (simp add: stores_between_def)

lemma stores_between_store:
  "stores_between e w w' l \<Longrightarrow> cid \<noteq> [] \<Longrightarrow>
   stores_between e w (store_content_in_chroma e cid t v w') (l @ [cid])"
  unfolding stores_between_def
  by (auto simp: store_calls_store collection_store add_if_absent_def accepting_def)

lemma chapter_id_base_nonempty [simp]: "chapter_id_base \<noteq> []"
  by (simp add: chapter_id_base_def)

lemma pipeline_id_nonempty [simp]:
  "original_id \<noteq> []" "ai_spun_id i \<noteq> []" "iteration_id i \<noteq> []"
  by (simp_all add: original_id_def ai_spun_id_def iteration_id_def)

lemma stores_between_logging:
  "stores_between e w w' l \<Longrightarrow> store_call x = [] \<Longrightarrow> stores_between e w (logging x w') l"
  by (simp add: stores_between_def)

lemma stores_between_stdin:
  "stores_between e w (w'\<lparr>stdin := ls\<rparr>) l \<longleftrightarrow> stores_between e w w' l"
  by (simp add: stores_between_def)

lemma stores_between_ai_spin:
  "stores_between e w w' l \<Longrightarrow> stores_between e w (snd (ai_spin_chapter e t i w')) l"
  by (simp add: ai_spin_chapter_def generate_content_async_def Let_def stores_between_def split: option.splits)

lemma stores_between_ai_review:
  "stores_between e w w' l \<Longrightarrow> stores_between e w (snd (ai_review_chapter e t w')) l"
  by (simp add: ai_review_chapter_def generate_content_async_def Let_def stores_between_def split: option.splits)

lemma stores_between_scrape:
  "stores_between e w w' l \<Longrightarrow> stores_between e w (snd (scrape_and_screenshot e url w')) l"
  by (simp add: scrape_and_screenshot_def Let_def stores_between_def split: browse_result.splits)

lemma stores_between_search:
  "stores_between e w w' l \<Longrightarrow> stores_between e w (snd (semantic_search_chroma e q n w')) l"
  by (simp add: semantic_search_chroma_def Let_def stores_between_def split: sum.splits)

lemma stores_between_checkpoint_loop:
  "stores_between e w0 w l \<Longrightarrow>
   stores_between e w0 (snd (checkpoint_loop e t cid ls w)) l \<or>
   stores_between e w0 (snd (checkpoint_loop e t cid ls w)) (l @ [cid @ ''_final'']) \<or>
   stores_between e w0 (snd (checkpoint_loop e t cid ls w)) (l @ [cid @ ''_human_edited''])"
proof (induction ls)
  case Nil
  then show ?case by (simp add: stores_between_stdin)
next
  case (Cons a ls)
  show ?case
    using Cons
    by (auto simp: Let_def stores_between_stdin stores_between_logging stores_between_store
             split: sum.splits prod.splits)
qed

lemma subseq_iteration_ids:
  "subseq [] (iteration_ids i)"
  "subseq [ai_spun_id i] (iteration_ids i)"
  "subseq [ai_spun_id i, iteration_id i @ ''_final''] (iteration_ids i)"
  "subseq [ai_spun_id i, iteration_id i @ ''_human_edited''] (iteration_ids i)"
  by (simp_all add: iteration_ids_def final_id_def human_edited_id_def)

lemma stores_between_iteration:
  assumes "stores_between e w0 w l"
  shows "\<exists>l'. stores_between e w0 (snd (iteration e cur i w)) (l @ l') \<and> subseq l' (iteration_ids i)"
proof -
  define s where "s = ai_spin_chapter e cur i (logging (StartingIteration i) w)"
  have s: "stores_between e w0 (snd s) l"
    unfolding s_def using assms by (intro stores_between_ai_spin stores_between_logging) simp_all
  show ?thesis
  proof (cases "truthy (fst s)")
    case False
    then have "snd (iteration e cur i w) = logging (SpinFailedExit i) (snd s)"
      by (simp add: iteration_unfold s_def)
    then have "stores_between e w0 (snd (iteration e cur i w)) (l @ [])"
      using s by (simp add: stores_between_logging)
    then show ?thesis
      using subseq_iteration_ids(1) by blast
  next
    case True
    define w4 where "w4 = snd (ai_review_chapter e (the (fst s))
        (store_content_in_chroma e (ai_spun_id i) (the (fst s)) (ai_spun_tag i) (snd s)))"
    define h where "h = human_in_the_loop_feedback e (the (fst s)) (iteration_id i) w4"
    have w4: "stores_between e w0 w4 (l @ [ai_spun_id i])"
      unfolding w4_def using s by (intro stores_between_ai_review stores_between_store) simp_all
    have h: "stores_between e w0 (snd h) (l @ [ai_spun_id i]) \<or>
             stores_between e w0 (snd h) ((l @ [ai_spun_id i]) @ [iteration_id i @ ''_final'']) \<or>
             stores_between e w0 (snd h) ((l @ [ai_spun_id i]) @ [iteration_id i @ ''_human_edited''])"
      unfolding h_def human_in_the_loop_feedback_def
      using w4 by (rule stores_between_checkpoint_loop)
    have it: "snd (iteration e cur i w) = snd h \<or> snd (iteration e cur i w) = logging (RejectedExit i) (snd h)"
      using True
      by (simp add: iteration_unfold s_def [symmetric] Let_def w4_def [symmetric] h_def [symmetric]
               split: sum.splits)
    have "stores_between e w0 (snd (iteration e cur i w)) (l @ [ai_spun_id i]) \<or>
          stores_between e w0 (snd (iteration e cur i w)) (l @ [ai_spun_id i, iteration_id i @ ''_final'']) \<or>
          stores_between e w0 (snd (iteration e cur i w)) (l @ [ai_spun_id i, iteration_id i @ ''_human_edited''])"
      using h it by (auto simp: stores_between_logging)
    then show ?thesis
      using subseq_iteration_ids(2,3,4) by blast
  qed
qed

lemma stores_between_main_loop:
  "stores_between e w0 w l \<Longrightarrow>
   \<exists>l'. stores_between e w0 (snd (main_loop e cur is w)) (l @ l') \<and>
        subseq l' (concat (map iteration_ids is))"
proof (induction "is" arbitrary: cur w l)
  case Nil
  then show ?case by (auto intro: exI [of _ "[]"])
next
  case (Cons i "is")
  obtain l1 where l1: "stores_between e w0 (snd (iteration e cur i w)) (l @ l1)"
      and s1: "subseq l1 (iteration_ids i)"
    using stores_between_iteration [OF Cons.prems] by blast
  show ?case
  proof (cases "fst (iteration e cur i w)")
    case (Continue t)
    obtain l2 where l2: "stores_between e w0 (snd (main_loop e t is (snd (iteration e cur i w)))) ((l @ l1) @ l2)"
        and s2: "subseq l2 (concat (map iteration_ids is))"
      using Cons.IH [OF l1] by blast
    have "subseq (l1 @ l2) (concat (map iteration_ids (i # is)))"
      using s1 s2 by (simp add: list_emb_append_mono)
    moreover have "stores_between e w0 (snd (main_loop e cur (i # is) w)) (l @ l1 @ l2)"
      using l2 Continue by (simp add: main_loop_Cons Let_def del: main_loop.simps)
    ultimately show ?thesis by blast
  next
    case Break
    have "subseq (l1 @ []) (concat (map iteration_ids (i # is)))"
      using s1 by (simp add: list_emb_append_mono del: append_Nil2)
    moreover have "stores_between e w0 (snd (main_loop e cur (i # is) w)) (l @ l1)"
      using l1 Break by (simp add: main_loop_Cons Let_def del: main_loop.simps)
    ultimately show ?thesis by auto
  next
    case (Raised err)
    have "subseq (l1 @ []) (concat (map iteration_ids (i # is)))"
      using s1 by (simp add: list_emb_append_mono del: append_Nil2)
    moreover have "stores_between e w0 (snd (main_loop e cur (i # is) w)) (l @ l1)"
      using l1 Raised by (simp add: main_loop_Cons Let_def del: main_loop.simps)
    ultimately show ?thesis by auto
  qed
qed

lemma stores_between_main_with:
  "\<exists>l. stores_between e w (snd (main_with n e w)) l \<and> subseq l (pipeline_ids n)"
proof -
  define s where "s = scrape_and_screenshot e target_url (logging CollectionReady w)"
  have s: "stores_between e w (snd s) []"
    unfolding s_def
    by (intro stores_between_scrape stores_between_logging stores_between_refl) simp
  show ?thesis
  proof (cases "collection_opens e \<and> truthy (fst s)")
    case False
    then have "stores_between e w (snd (main_with n e w)) []"
      using s by (auto simp: main_with_unfold s_def [symmetric] stores_between_logging stores_between_refl)
    then show ?thesis by auto
  next
    case True
    define w3 where "w3 = store_content_in_chroma e original_id (the (fst s)) ''original'' (snd s)"
    define lp where "lp = main_loop e (the (fst s)) [Suc 0 ..< Suc n] w3"
    have w3: "stores_between e w w3 ([] @ [original_id])"
      unfolding w3_def using s by (rule stores_between_store) simp
    obtain l' where l': "stores_between e w (snd lp) (([] @ [original_id]) @ l')"
        and sub: "subseq l' (concat (map iteration_ids [Suc 0 ..< Suc n]))"
      unfolding lp_def using stores_between_main_loop [OF w3] by blast
    have "stores_between e w (snd (main_with n e w)) (original_id # l')"
      using True l'
      by (simp add: main_with_unfold s_def [symmetric] Let_def w3_def [symmetric] lp_def [symmetric]
                    stores_between_search stores_between_logging
               split: sum.splits del: upt_Suc)
    moreover have "subseq (original_id # l') (pipeline_ids n)"
      using sub by (simp add: pipeline_ids_def del: upt_Suc)
    ultimately show ?thesis by blast
  qed
qed

lemma subseq_distinct_list: "subseq l xs \<Longrightarrow> distinct xs \<Longrightarrow> distinct l"
  using subseqs_distinctD [of l xs] by simp

lemma subseq_set: "subseq l xs \<Longrightarrow> set l \<subseteq> set xs"
  by (auto elim: list_emb_set)

lemma set_pipeline_ids_named:
  "set (pipeline_ids n) =
     {original_id} \<union> (\<Union>i \<in> {1 .. n}. {ai_spun_id i, final_id i, human_edited_id i})"
proof -
  have "set [1 ..< Suc n] = {1 .. n}"
    by auto
  then show ?thesis
    by (simp add: pipeline_ids_def iteration_ids_def del: upt_Suc set_upt)
qed

lemma set_pipeline_ids:
  "set (pipeline_ids n) =
     {chapter_id_base @ ''_original''}
     \<union> (\<Union>i \<in> {1 .. n}. {chapter_id_base @ ''_ai_spun_iter_'' @ str_nat i,
                            chapter_id_base @ ''_iter_'' @ str_nat i @ ''_final'',
                            chapter_id_base @ ''_iter_'' @ str_nat i @ ''_human_edited''})"
  unfolding set_pipeline_ids_named
  by (simp only: original_id_def ai_spun_id_def final_id_def human_edited_id_def iteration_id_def
                 append_assoc)

section \<open>What the steps leave as it is\<close>

lemma stdin_ai_spin [simp]: "stdin (snd (ai_spin_chapter e t i w)) = stdin w"
  by (simp add: ai_spin_chapter_def generate_content_async_def Let_def split: option.splits)

lemma stdin_ai_review [simp]: "stdin (snd (ai_review_chapter e t w)) = stdin w"
  by (simp add: ai_review_chapter_def generate_content_async_def Let_def split: option.splits)

lemma add_calls_ai_spin [simp]: "add_calls (snd (ai_spin_chapter e t i w)) = add_calls w"
  by (simp add: ai_spin_chapter_def generate_content_async_def Let_def split: option.splits)

lemma add_calls_ai_review [simp]: "add_calls (snd (ai_review_chapter e t w)) = add_calls w"
  by (simp add: ai_review_chapter_def generate_content_async_def Let_def split: option.splits)

lemma gemini_calls_scrape [simp]:
  "gemini_calls (snd (scrape_and_screenshot e url w)) = gemini_calls w"
  by (simp add: scrape_and_screenshot_def Let_def split: browse_result.splits)

lemma fst_ai_spin:
  "cur \<noteq> [] \<Longrightarrow> fst (ai_spin_chapter e cur i w) = generate e (gemini_calls w) (spin_prompt cur i)"
  by (simp add: ai_spin_chapter_def generate_content_async_def Let_def split: option.splits)

section \<open>The human checkpoint: accept, edit, reject\<close>

lemma checkpoint_edit_lines:
  assumes "stdin w = junk @ line # lines @ sentinel # rest"
    and "\<forall>l \<in> set junk. strip (lower l) \<notin> {''accept'', ''edit'', ''reject''}"
    and "strip (lower line) = ''edit''"
    and "\<forall>l \<in> set lines. upper (strip l) \<noteq> ''DONE''"
    and "upper (strip sentinel) = ''DONE''"
  shows "human_in_the_loop_feedback e t cid w
           = (Inr (Some (join newline lines)),
              store_content_in_chroma e (cid @ ''_human_edited'') (join newline lines)
                ''human_edited'' (logging (HumanEdited cid) (w\<lparr>stdin := rest\<rparr>)))"
proof -
  have "read_edited_lines [] (lines @ sentinel # rest) = Inr ([] @ lines, rest)"
    using assms(4,5) by (rule read_edited_lines_sentinel)
  then show ?thesis
    using assms(1,2,3)
    by (simp add: human_in_the_loop_feedback_def checkpoint_skip Let_def)
qed

text \<open>
  Claim C6, as stated, fails on the code: the accepted text is not always written. The
  collection persists on disk and the ids are the same in every run, so a later run finds
  \<open>{chapter_id}_final\<close> held; the checkpoint then returns the text and calls the store, but
  the client does not take the record, whether it raises or skips, and the collection
  holds no new variant, only the earlier text.
\<close>

theorem checkpoint_accept_counterexample:
  "fst (human_in_the_loop_feedback sample_env ''Some text'' ''ch_iter_1'' held_final_world)
     = Inr (Some ''Some text'')
   \<and> collection (snd (human_in_the_loop_feedback sample_env ''Some text'' ''ch_iter_1''
         held_final_world))
     = [(''ch_iter_1_final'',
         \<lparr>document = ''An earlier text'',
            meta = \<lparr>md_id = ''ch_iter_1_final'', md_version_type = ''final''\<rparr>\<rparr>)]
   \<and> collection (snd (human_in_the_loop_feedback (sample_env\<lparr>on_duplicate := SkipDuplicate\<rparr>)
         ''Some text'' ''ch_iter_1'' held_final_world))
     = [(''ch_iter_1_final'',
         \<lparr>document = ''An earlier text'',
            meta = \<lparr>md_id = ''ch_iter_1_final'', md_version_type = ''final''\<rparr>\<rparr>)]"
  by code_simp

text \<open>
  Claim C6, amended. The operator's first recognised command is \<open>accept\<close> (in any case,
  with any surrounding whitespace, after any number of unrecognised lines). Then, for every
  input text, the checkpoint returns exactly that text, and it makes exactly one call of the
  store, for the id \<open>{chapter_id}_final\<close>, the input text as document and the tag
  \<open>final\<close>. That call writes exactly one new variant, with this id, this document and this
  tag, when the collection does not hold the id yet and the client does not refuse the
  record; when the collection holds the id, or the client refuses, nothing is written and
  the collection stays as it was.
\<close>

theorem checkpoint_accept:
  assumes "stdin w = junk @ line # rest"
    and "\<forall>l \<in> set junk. strip (lower l) \<notin> {''accept'', ''edit'', ''reject''}"
    and "strip (lower line) = ''accept''"
  shows "fst (human_in_the_loop_feedback e text chapter_id w) = Inr (Some text)
       \<and> snd (human_in_the_loop_feedback e text chapter_id w)
           = store_content_in_chroma e (chapter_id @ ''_final'') text ''final''
               (logging (HumanAccepted chapter_id) (w\<lparr>stdin := rest\<rparr>))
       \<and> store_calls (log (snd (human_in_the_loop_feedback e text chapter_id w)))
           = store_calls (log w) @ [chapter_id @ ''_final'']
       \<and> (chapter_id @ ''_final'' \<notin> fst ` set (collection w)
            \<and> \<not> refuses e (add_calls w) (chapter_id @ ''_final'') text
                  \<lparr>md_id = chapter_id @ ''_final'', md_version_type = ''final''\<rparr> \<longrightarrow>
            collection (snd (human_in_the_loop_feedback e text chapter_id w))
              = collection w @ [(chapter_id @ ''_final'',
                  \<lparr>document = text,
                     meta = \<lparr>md_id = chapter_id @ ''_final'', md_version_type = ''final''\<rparr>\<rparr>)])
       \<and> (chapter_id @ ''_final'' \<in> fst ` set (collection w)
            \<or> refuses e (add_calls w) (chapter_id @ ''_final'') text
                  \<lparr>md_id = chapter_id @ ''_final'', md_version_type = ''final''\<rparr> \<longrightarrow>
            collection (snd (human_in_the_loop_feedback e text chapter_id w)) = collection w)"
proof -
  have run: "human_in_the_loop_feedback e text chapter_id w
        = (Inr (Some text),
           store_content_in_chroma e (chapter_id @ ''_final'') text ''final''
             (logging (HumanAccepted chapter_id) (w\<lparr>stdin := rest\<rparr>)))"
    using assms by (simp add: human_in_the_loop_feedback_def checkpoint_skip)
  show ?thesis
    by (auto simp: run store_calls_store collection_store add_if_absent_def)
qed

theorem checkpoint_accept_witness:
  "fst (human_in_the_loop_feedback sample_env ''Some text'' ''ch_iter_1''
          (sample_world [''what?'', '' Accept '', ''more'']))
     = Inr (Some ''Some text'')
   \<and> store_calls (log (snd (human_in_the_loop_feedback sample_env ''Some text'' ''ch_iter_1''
          (sample_world [''what?'', '' Accept '', ''more'']))))
     = [''ch_iter_1_final'']
   \<and> collection (snd (human_in_the_loop_feedback sample_env ''Some text'' ''ch_iter_1''
          (sample_world [''what?'', '' Accept '', ''more''])))
     = [(''ch_iter_1_final'',
         \<lparr>document = ''Some text'',
            meta = \<lparr>md_id = ''ch_iter_1_final'', md_version_type = ''final''\<rparr>\<rparr>)]"
proof -
  have lines: "stdin (sample_world [''what?'', '' Accept '', ''more''])
                 = [''what?''] @ '' Accept '' # [''more'']"
    by (simp add: sample_world_def)
  have junk: "\<forall>l \<in> set [''what?'']. strip (lower l) \<notin> {''accept'', ''edit'', ''reject''}"
    by code_simp
  have accept: "strip (lower '' Accept '') = ''accept''"
    by code_simp
  have fresh: "''ch_iter_1'' @ ''_final''
                 \<notin> fst ` set (collection (sample_world [''what?'', '' Accept '', ''more'']))"
    by (simp add: sample_world_def)
  have taken: "\<not> refuses sample_env (add_calls (sample_world [''what?'', '' Accept '', ''more'']))
                   (''ch_iter_1'' @ ''_final'') ''Some text''
                   \<lparr>md_id = ''ch_iter_1'' @ ''_final'', md_version_type = ''final''\<rparr>"
    by (simp add: sample_env_def)
  note accepted =
    checkpoint_accept [OF lines junk accept, of sample_env "''Some text''" "''ch_iter_1''"]
  have returned: "fst (human_in_the_loop_feedback sample_env ''Some text'' ''ch_iter_1''
          (sample_world [''what?'', '' Accept '', ''more''])) = Inr (Some ''Some text'')"
    using accepted by blast
  have called: "store_calls (log (snd (human_in_the_loop_feedback sample_env ''Some text''
          ''ch_iter_1'' (sample_world [''what?'', '' Accept '', ''more'']))))
      = store_calls (log (sample_world [''what?'', '' Accept '', ''more'']))
        @ [''ch_iter_1'' @ ''_final'']"
    using accepted by blast
  have written: "collection (snd (human_in_the_loop_feedback sample_env ''Some text''
          ''ch_iter_1'' (sample_world [''what?'', '' Accept '', ''more''])))
      = collection (sample_world [''what?'', '' Accept '', ''more''])
        @ [(''ch_iter_1'' @ ''_final'',
            \<lparr>document = ''Some text'',
               meta = \<lparr>md_id = ''ch_iter_1'' @ ''_final'', md_version_type = ''final''\<rparr>\<rparr>)]"
    using accepted fresh taken by blast
  show ?thesis
    unfolding returned called written by (simp add: sample_world_def)
qed

text \<open>
  Claim C7, as stated, fails on the code: the edited text is not always written. When the
  collection already holds \<open>{chapter_id}_human_edited\<close>, as a later run finds it, the
  checkpoint returns \<open>"Hello\nWorld"\<close> and calls the store, but the client does not take
  the record, and the collection holds no new variant, only the earlier edit.
\<close>

theorem checkpoint_edit_hello_world_counterexample:
  "fst (human_in_the_loop_feedback sample_env ''Some text'' ''ch_iter_1'' held_edit_world)
     = Inr (Some (''Hello'' @ [CHR 0x0A] @ ''World''))
   \<and> collection (snd (human_in_the_loop_feedback sample_env ''Some text'' ''ch_iter_1''
         held_edit_world))
     = [(''ch_iter_1_human_edited'',
         \<lparr>document = ''An earlier edit'',
            meta = \<lparr>md_id = ''ch_iter_1_human_edited'', md_version_type = ''human_edited''\<rparr>\<rparr>)]
   \<and> collection (snd (human_in_the_loop_feedback (sample_env\<lparr>on_duplicate := SkipDuplicate\<rparr>)
         ''Some text'' ''ch_iter_1'' held_edit_world))
     = [(''ch_iter_1_human_edited'',
         \<lparr>document = ''An earlier edit'',
            meta = \<lparr>md_id = ''ch_iter_1_human_edited'', md_version_type = ''human_edited''\<rparr>\<rparr>)]"
  by code_simp

text \<open>
  Claim C7, amended. The operator's first recognised command is \<open>edit\<close> and the next lines
  are \<open>Hello\<close>, \<open>World\<close>, \<open>DONE\<close>. Then the checkpoint returns \<open>"Hello\nWorld"\<close>, the lines
  before the sentinel joined by a newline, and it makes exactly one call of the store, for
  the id \<open>{chapter_id}_human_edited\<close>, that text as document and the tag \<open>human_edited\<close>.
  That call writes exactly one new variant, with this id, this document and this tag, when
  the collection does not hold the id yet and the client does not refuse the record; when
  the collection holds the id, or the client refuses, nothing is written and the collection
  stays as it was.
\<close>

theorem checkpoint_edit_hello_world:
  assumes "stdin w = junk @ line # ''Hello'' # ''World'' # ''DONE'' # rest"
    and "\<forall>l \<in> set junk. strip (lower l) \<notin> {''accept'', ''edit'', ''reject''}"
    and "strip (lower line) = ''edit''"
  shows "fst (human_in_the_loop_feedback e text chapter_id w)
           = Inr (Some (''Hello'' @ [CHR 0x0A] @ ''World''))
       \<and> snd (human_in_the_loop_feedback e text chapter_id w)
           = store_content_in_chroma e (chapter_id @ ''_human_edited'')
               (''Hello'' @ [CHR 0x0A] @ ''World'') ''human_edited''
               (logging (HumanEdited chapter_id) (w\<lparr>stdin := rest\<rparr>))
       \<and> store_calls (log (snd (human_in_the_loop_feedback e text chapter_id w)))
           = store_calls (log w) @ [chapter_id @ ''_human_edited'']
       \<and> (chapter_id @ ''_human_edited'' \<notin> fst ` set (collection w)
            \<and> \<not> refuses e (add_calls w) (chapter_id @ ''_human_edited'')
                  (''Hello'' @ [CHR 0x0A] @ ''World'')
                  \<lparr>md_id = chapter_id @ ''_human_edited'', md_version_type = ''human_edited''\<rparr> \<longrightarrow>
            collection (snd (human_in_the_loop_feedback e text chapter_id w))
              = collection w @ [(chapter_id @ ''_human_edited'',
                  \<lparr>document = ''Hello'' @ [CHR 0x0A] @ ''World'',
                     meta = \<lparr>md_id = chapter_id @ ''_human_edited'',
                             md_version_type = ''human_edited''\<rparr>\<rparr>)])
       \<and> (chapter_id @ ''_human_edited'' \<in> fst ` set (collection w)
            \<or> refuses e (add_calls w) (chapter_id @ ''_human_edited'')
                  (''Hello'' @ [CHR 0x0A] @ ''World'')
                  \<lparr>md_id = chapter_id @ ''_human_edited'', md_version_type = ''human_edited''\<rparr> \<longrightarrow>
            collection (snd (human_in_the_loop_feedback e text chapter_id w)) = collection w)"
proof -
  have lines: "stdin w = junk @ line # [''Hello'', ''World''] @ ''DONE'' # rest"
    using assms(1) by simp
  have not_sentinel: "\<forall>l \<in> set [''Hello'', ''World'']. upper (strip l) \<noteq> ''DONE''"
    by code_simp
  have sentinel: "upper (strip ''DONE'') = ''DONE''"
    by code_simp
  have joined: "join newline [''Hello'', ''World''] = ''Hello'' @ [CHR 0x0A] @ ''World''"
    by (simp add: newline_def)
  have run: "human_in_the_loop_feedback e text chapter_id w
        = (Inr (Some (''Hello'' @ [CHR 0x0A] @ ''World'')),
           store_content_in_chroma e (chapter_id @ ''_human_edited'')
             (''Hello'' @ [CHR 0x0A] @ ''World'') ''human_edited''
             (logging (HumanEdited chapter_id) (w\<lparr>stdin := rest\<rparr>)))"
    using checkpoint_edit_lines [OF lines assms(2,3) not_sentinel sentinel, of e "text" chapter_id]
    unfolding joined .
  show ?thesis
    unfolding run by (auto simp: store_calls_store collection_store add_if_absent_def)
qed

theorem checkpoint_edit_hello_world_witness:
  "fst (human_in_the_loop_feedback sample_env ''Some text'' ''ch_iter_1''
          (sample_world [''EDIT'', ''Hello'', ''World'', ''DONE'']))
     = Inr (Some (''Hello'' @ [CHR 0x0A] @ ''World''))
   \<and> store_calls (log (snd (human_in_the_loop_feedback sample_env ''Some text'' ''ch_iter_1''
          (sample_world [''EDIT'', ''Hello'', ''World'', ''DONE'']))))
     = [''ch_iter_1_human_edited'']
   \<and> collection (snd (human_in_the_loop_feedback sample_env ''Some text'' ''ch_iter_1''
          (sample_world [''EDIT'', ''Hello'', ''World'', ''DONE''])))
     = [(''ch_iter_1_human_edited'',
         \<lparr>document = ''Hello'' @ [CHR 0x0A] @ ''World'',
            meta = \<lparr>md_id = ''ch_iter_1_human_edited'', md_version_type = ''human_edited''\<rparr>\<rparr>)]"
proof -
  have lines: "stdin (sample_world [''EDIT'', ''Hello'', ''World'', ''DONE''])
                 = [] @ ''EDIT'' # ''Hello'' # ''World'' # ''DONE'' # []"
    by (simp add: sample_world_def)
  have junk: "\<forall>l \<in> set []. strip (lower l) \<notin> {''accept'', ''edit'', ''reject''}"
    by simp
  have edit: "strip (lower ''EDIT'') = ''edit''"
    by code_simp
  have fresh: "''ch_iter_1'' @ ''_human_edited''
                 \<notin> fst ` set (collection (sample_world [''EDIT'', ''Hello'', ''World'', ''DONE'']))"
    by (simp add: sample_world_def)
  have taken: "\<not> refuses sample_env (add_calls (sample_world [''EDIT'', ''Hello'', ''World'', ''DONE'']))
                   (''ch_iter_1'' @ ''_human_edited'') (''Hello'' @ [CHR 0x0A] @ ''World'')
                   \<lparr>md_id = ''ch_iter_1'' @ ''_human_edited'', md_version_type = ''human_edited''\<rparr>"
    by (simp add: sample_env_def)
  note edited =
    checkpoint_edit_hello_world [OF lines junk edit, of sample_env "''Some text''" "''ch_iter_1''"]
  have returned: "fst (human_in_the_loop_feedback sample_env ''Some text'' ''ch_iter_1''
          (sample_world [''EDIT'', ''Hello'', ''World'', ''DONE'']))
      = Inr (Some (''Hello'' @ [CHR 0x0A] @ ''World''))"
    using edited by blast
  have called: "store_calls (log (snd (human_in_the_loop_feedback sample_env ''Some text''
          ''ch_iter_1'' (sample_world [''EDIT'', ''Hello'', ''World'', ''DONE'']))))
      = store_calls (log (sample_world [''EDIT'', ''Hello'', ''World'', ''DONE'']))
        @ [''ch_iter_1'' @ ''_human_edited'']"
    using edited by blast
  have written: "collection (snd (human_in_the_loop_feedback sample_env ''Some text''
          ''ch_iter_1'' (sample_world [''EDIT'', ''Hello'', ''World'', ''DONE''])))
      = collection (sample_world [''EDIT'', ''Hello'', ''World'', ''DONE''])
        @ [(''ch_iter_1'' @ ''_human_edited'',
            \<lparr>document = ''Hello'' @ [CHR 0x0A] @ ''World'',
               meta = \<lparr>md_id = ''ch_iter_1'' @ ''_human_edited'',
                       md_version_type = ''human_edited''\<rparr>\<rparr>)]"
    using edited fresh taken by blast
  show ?thesis
    unfolding returned called written by (simp add: sample_world_def)
qed

text \<open>
  Claim C8. The operator's first recognised command is \<open>reject\<close>. Then, for every input
  text, the checkpoint returns \<open>None\<close>, makes no call of the store and leaves the collection
  as it was; it only logs the rejection.
\<close>

theorem checkpoint_reject:
  assumes "stdin w = junk @ line # rest"
    and "\<forall>l \<in> set junk. strip (lower l) \<notin> {''accept'', ''edit'', ''reject''}"
    and "strip (lower line) = ''reject''"
  shows "fst (human_in_the_loop_feedback e text chapter_id w) = Inr None
       \<and> collection (snd (human_in_the_loop_feedback e text chapter_id w)) = collection w
       \<and> store_calls (log (snd (human_in_the_loop_feedback e text chapter_id w)))
           = store_calls (log w)
       \<and> log (snd (human_in_the_loop_feedback e text chapter_id w))
           = log w @ [HumanRejected chapter_id]"
  using assms by (simp add: human_in_the_loop_feedback_def checkpoint_skip)

theorem checkpoint_reject_witness:
  "fst (human_in_the_loop_feedback sample_env ''Some text'' ''ch_iter_1''
          (sample_world [''no'', ''Reject'']))
     = Inr None
   \<and> collection (snd (human_in_the_loop_feedback sample_env ''Some text'' ''ch_iter_1''
          (sample_world [''no'', ''Reject''])))
     = []
   \<and> store_calls (log (snd (human_in_the_loop_feedback sample_env ''Some text'' ''ch_iter_1''
          (sample_world [''no'', ''Reject'']))))
     = []"
proof -
  have lines: "stdin (sample_world [''no'', ''Reject'']) = [''no''] @ ''Reject'' # []"
    by (simp add: sample_world_def)
  have junk: "\<forall>l \<in> set [''no'']. strip (lower l) \<notin> {''accept'', ''edit'', ''reject''}"
    by code_simp
  have reject: "strip (lower ''Reject'') = ''reject''"
    by code_simp
  show ?thesis
    using checkpoint_reject [OF lines junk reject, of sample_env "''Some text''" "''ch_iter_1''"]
    by (simp add: sample_world_def)
qed

section \<open>Writing to the store\<close>

text \<open>
  Claim C2, as stated, fails on the code: the write is not write-or-overwrite. For an id the
  collection already holds, \<open>store_content_in_chroma\<close> leaves the stored document and
  metadata as they are, whether the client raises (the exception is caught and logged) or
  skips the record. Here a second write under the id \<open>k\<close> with a new text and a new tag
  leaves the first text and tag in place, under both behaviours of the client.
\<close>

theorem store_overwrite_counterexample:
  "map_of (collection (store_content_in_chroma sample_env ''k'' ''new text'' ''final''
      (store_content_in_chroma sample_env ''k'' ''old text'' ''original'' (sample_world [])))) ''k''
     = Some \<lparr>document = ''old text'', meta = \<lparr>md_id = ''k'', md_version_type = ''original''\<rparr>\<rparr>
   \<and> map_of (collection (store_content_in_chroma sample_env ''k'' ''new text'' ''final''
      (store_content_in_chroma sample_env ''k'' ''old text'' ''original'' (sample_world [])))) ''k''
     \<noteq> Some \<lparr>document = ''new text'', meta = \<lparr>md_id = ''k'', md_version_type = ''final''\<rparr>\<rparr>
   \<and> map_of (collection
        (store_content_in_chroma (sample_env\<lparr>on_duplicate := SkipDuplicate\<rparr>) ''k'' ''new text'' ''final''
          (store_content_in_chroma (sample_env\<lparr>on_duplicate := SkipDuplicate\<rparr>) ''k'' ''old text''
             ''original'' (sample_world [])))) ''k''
     \<noteq> Some \<lparr>document = ''new text'', meta = \<lparr>md_id = ''k'', md_version_type = ''final''\<rparr>\<rparr>"
  by (simp add: collection_store add_if_absent_def sample_world_def sample_env_def)

text \<open>
  The client refuses the empty id, so that nothing is stored under it; and a client that
  fails at one call and not at the next stores with two calls what it does not store with
  one.
\<close>

lemma store_refuses_empty_id:
  "collection (store_content_in_chroma sample_env [] ''Some text'' ''original'' (sample_world []))
     = []"
  by (simp add: collection_store sample_world_def)

lemma store_twice_with_flaky_client:
  "collection (store_content_in_chroma flaky_env ''k'' ''Some text'' ''original''
      (sample_world [])) = []
   \<and> collection (store_content_in_chroma flaky_env ''k'' ''Some text'' ''original''
        (store_content_in_chroma flaky_env ''k'' ''Some text'' ''original'' (sample_world [])))
     = [(''k'', \<lparr>document = ''Some text'',
                 meta = \<lparr>md_id = ''k'', md_version_type = ''original''\<rparr>\<rparr>)]"
  by (simp add: collection_store add_if_absent_def sample_world_def flaky_env_def sample_env_def)

text \<open>
  Claim C2, amended. For every id, content and version tag, the write stores the document
  with its metadata under the id, at the end of the collection, when the id is not empty,
  the collection does not hold it yet and the client does not refuse the record; in every
  other case it leaves the collection unchanged. So it writes, and never overwrites. And
  calling it twice with the same id and the same content, the client answering both calls
  alike, leaves the documents and the metadata of the collection as calling it once does.
\<close>

theorem store_writes_only_if_absent:
  "collection (store_content_in_chroma e cid t v w)
     = (if cid \<noteq> [] \<and> cid \<notin> fst ` set (collection w)
           \<and> \<not> refuses e (add_calls w) cid t \<lparr>md_id = cid, md_version_type = v\<rparr>
        then collection w @ [(cid, \<lparr>document = t, meta = \<lparr>md_id = cid, md_version_type = v\<rparr>\<rparr>)]
        else collection w)
   \<and> (refuses e (Suc (add_calls w)) cid t \<lparr>md_id = cid, md_version_type = v\<rparr>
        = refuses e (add_calls w) cid t \<lparr>md_id = cid, md_version_type = v\<rparr> \<longrightarrow>
      collection (store_content_in_chroma e cid t v (store_content_in_chroma e cid t v w))
        = collection (store_content_in_chroma e cid t v w))"
  by (auto simp: collection_store add_if_absent_def)

theorem store_writes_only_if_absent_witness:
  "collection (store_content_in_chroma sample_env ''k'' ''Some text'' ''original'' (sample_world []))
     = [(''k'', \<lparr>document = ''Some text'',
                 meta = \<lparr>md_id = ''k'', md_version_type = ''original''\<rparr>\<rparr>)]
   \<and> collection (store_content_in_chroma sample_env ''k'' ''Some text'' ''original''
        (store_content_in_chroma sample_env ''k'' ''Some text'' ''original'' (sample_world [])))
     = [(''k'', \<lparr>document = ''Some text'',
                 meta = \<lparr>md_id = ''k'', md_version_type = ''original''\<rparr>\<rparr>)]"
proof -
  have alike: "refuses sample_env (Suc (add_calls (sample_world []))) ''k'' ''Some text''
                  \<lparr>md_id = ''k'', md_version_type = ''original''\<rparr>
               = refuses sample_env (add_calls (sample_world [])) ''k'' ''Some text''
                  \<lparr>md_id = ''k'', md_version_type = ''original''\<rparr>"
    by (simp add: sample_env_def)
  note written =
    store_writes_only_if_absent [of sample_env "''k''" "''Some text''" "''original''" "sample_world []"]
  have once: "collection (store_content_in_chroma sample_env ''k'' ''Some text'' ''original''
                (sample_world []))
     = [(''k'', \<lparr>document = ''Some text'',
                 meta = \<lparr>md_id = ''k'', md_version_type = ''original''\<rparr>\<rparr>)]"
    using written by (simp add: sample_world_def sample_env_def)
  have twice: "collection (store_content_in_chroma sample_env ''k'' ''Some text'' ''original''
        (store_content_in_chroma sample_env ''k'' ''Some text'' ''original'' (sample_world [])))
     = collection (store_content_in_chroma sample_env ''k'' ''Some text'' ''original''
        (sample_world []))"
    using written alike by blast
  show ?thesis
    unfolding twice once by simp
qed

section \<open>Stored variants\<close>

lemma iteration_edit:
  assumes "cur \<noteq> []"
    and "generate e (gemini_calls w) (spin_prompt cur i) = Some spun"
    and "spun \<noteq> []"
    and "stdin w = junk @ line # lines @ sentinel # rest"
    and "\<forall>l \<in> set junk. strip (lower l) \<notin> {''accept'', ''edit'', ''reject''}"
    and "strip (lower line) = ''edit''"
    and "\<forall>l \<in> set lines. upper (strip l) \<noteq> ''DONE''"
    and "upper (strip sentinel) = ''DONE''"
  shows "store_calls (log (snd (iteration e cur i w)))
           = store_calls (log w) @ [ai_spun_id i, iteration_id i @ ''_human_edited'']"
    and "accepting e \<Longrightarrow>
         collection (snd (iteration e cur i w))
           = add_if_absent (iteration_id i @ ''_human_edited'') (join newline lines) ''human_edited''
               (add_if_absent (ai_spun_id i) spun (ai_spun_tag i) (collection w))"
proof -
  define s where "s = ai_spin_chapter e cur i (logging (StartingIteration i) w)"
  define w3 where "w3 = store_content_in_chroma e (ai_spun_id i) spun (ai_spun_tag i) (snd s)"
  define w4 where "w4 = snd (ai_review_chapter e spun w3)"
  define w5 where "w5 = store_content_in_chroma e (iteration_id i @ ''_human_edited'')
                          (join newline lines) ''human_edited''
                          (logging (HumanEdited (iteration_id i)) (w4\<lparr>stdin := rest\<rparr>))"
  have spun: "fst s = Some spun"
    using assms(1,2) by (simp add: s_def fst_ai_spin)
  have lines: "stdin w4 = junk @ line # lines @ sentinel # rest"
    using assms(4) by (simp add: w4_def w3_def s_def)
  have h: "human_in_the_loop_feedback e spun (iteration_id i) w4
             = (Inr (Some (join newline lines)), w5)"
    unfolding w5_def using lines assms(5,6,7,8) by (rule checkpoint_edit_lines)
  have it: "snd (iteration e cur i w) = w5 \<or> snd (iteration e cur i w) = logging (RejectedExit i) w5"
    using assms(3)
    by (simp add: iteration_unfold s_def [symmetric] spun Let_def w3_def [symmetric]
                  w4_def [symmetric] h truthy_def)
  have calls3: "store_calls (log w3) = store_calls (log w) @ [ai_spun_id i]"
  proof -
    have "stores_between e w (snd s) []"
      unfolding s_def
      by (intro stores_between_ai_spin stores_between_logging stores_between_refl) simp
    then show ?thesis
      by (simp add: w3_def store_calls_store stores_between_def)
  qed
  have "stores_between e w3 w4 []"
    unfolding w4_def by (intro stores_between_ai_review stores_between_refl)
  then have calls4: "store_calls (log w4) = store_calls (log w3)"
    by (simp add: stores_between_def)
  have calls5: "store_calls (log w5)
                  = store_calls (log w) @ [ai_spun_id i, iteration_id i @ ''_human_edited'']"
    by (simp add: w5_def store_calls_store calls4 calls3)
  show "store_calls (log (snd (iteration e cur i w)))
           = store_calls (log w) @ [ai_spun_id i, iteration_id i @ ''_human_edited'']"
    using it calls5 by auto
  show "collection (snd (iteration e cur i w))
           = add_if_absent (iteration_id i @ ''_human_edited'') (join newline lines) ''human_edited''
               (add_if_absent (ai_spun_id i) spun (ai_spun_tag i) (collection w))"
    if "accepting e"
  proof -
    have c3: "collection w3 = add_if_absent (ai_spun_id i) spun (ai_spun_tag i) (collection w)"
      using that by (simp add: w3_def collection_store_accepting s_def)
    have c4: "collection w4 = collection w3"
      by (simp add: w4_def)
    have c5: "collection w5
        = add_if_absent (iteration_id i @ ''_human_edited'') (join newline lines) ''human_edited''
            (collection w4)"
      using that by (simp add: w5_def collection_store_accepting)
    have "collection (snd (iteration e cur i w)) = collection w5"
      using it by auto
    then show ?thesis
      by (simp add: c5 c4 c3)
  qed
qed

text \<open>
  Claim C5, as stated, fails on the code in its last part: a human edit is not always
  stored under a new id. The id of an edit is the same in every run. Here the collection
  holds the edit of an earlier run, and the operator edits again: the checkpoint logs the
  edit and calls the store for the id that is held, the client does not take the record,
  and the later edit is stored under no id at all.
\<close>

theorem human_edit_dropped_counterexample:
  "HumanEdited ''gates_of_morning_ch1_iter_1'' \<in> set (log (snd (main_with 2 sample_env stocked_world)))
   \<and> map (\<lambda>r. (fst r, document (snd r))) (collection (snd (main_with 2 sample_env stocked_world)))
       = [(''gates_of_morning_ch1_iter_1_human_edited'', ''An earlier edit''),
          (''gates_of_morning_ch1_original'', ''Once'' @ [CHR 0x0A] @ ''upon a time''),
          (''gates_of_morning_ch1_ai_spun_iter_1'', ''A spun chapter'')]"
  by code_simp

text \<open>
  Claim C5, amended. A record stored under an id is never changed: after any write of the
  store (also one that uses the same id again), after the checkpoint, and after a whole run
  of any number of iterations, every id that the collection held still has the document and
  the metadata it had. A human edit goes to the id \<open>{chapter_id}_human_edited\<close>: the
  checkpoint returns the edited text and calls the store once, for this id; in an
  iteration that is not the id of the generated text that was edited, which stays stored
  as it was, and no two calls of the store in one run are for the same id. The edit is
  stored under its id when the collection does not hold that id yet and the client does
  not refuse the record; when the collection holds the id, the edit is not stored.
\<close>

theorem stored_variants_never_change:
  "(map_of (collection w) cid0 = Some r \<longrightarrow>
      map_of (collection (store_content_in_chroma e cid t v w)) cid0 = Some r)
   \<and> (map_of (collection w) cid0 = Some r \<longrightarrow>
      map_of (collection (snd (human_in_the_loop_feedback e text chapter_id w))) cid0 = Some r)
   \<and> (map_of (collection w) cid0 = Some r \<longrightarrow>
      map_of (collection (snd (main_with n e w))) cid0 = Some r)
   \<and> (\<exists>l. store_calls (log (snd (main_with n e w))) = store_calls (log w) @ l \<and> distinct l)
   \<and> (stdin w = junk @ line # lines @ sentinel # rest
        \<and> (\<forall>l \<in> set junk. strip (lower l) \<notin> {''accept'', ''edit'', ''reject''})
        \<and> strip (lower line) = ''edit''
        \<and> (\<forall>l \<in> set lines. upper (strip l) \<noteq> ''DONE'')
        \<and> upper (strip sentinel) = ''DONE'' \<longrightarrow>
      fst (human_in_the_loop_feedback e text chapter_id w) = Inr (Some (join [CHR 0x0A] lines))
      \<and> store_calls (log (snd (human_in_the_loop_feedback e text chapter_id w)))
          = store_calls (log w) @ [chapter_id @ ''_human_edited'']
      \<and> (chapter_id @ ''_human_edited'' \<notin> fst ` set (collection w)
           \<and> \<not> refuses e (add_calls w) (chapter_id @ ''_human_edited'') (join [CHR 0x0A] lines)
                 \<lparr>md_id = chapter_id @ ''_human_edited'', md_version_type = ''human_edited''\<rparr> \<longrightarrow>
          collection (snd (human_in_the_loop_feedback e text chapter_id w))
            = collection w @ [(chapter_id @ ''_human_edited'',
                \<lparr>document = join [CHR 0x0A] lines,
                   meta = \<lparr>md_id = chapter_id @ ''_human_edited'',
                           md_version_type = ''human_edited''\<rparr>\<rparr>)])
      \<and> (chapter_id @ ''_human_edited'' \<in> fst ` set (collection w) \<longrightarrow>
          collection (snd (human_in_the_loop_feedback e text chapter_id w)) = collection w)
      \<and> (cur \<noteq> [] \<and> generate e (gemini_calls w) (spin_prompt cur i) = Some spun \<and> spun \<noteq> [] \<longrightarrow>
          store_calls (log (snd (iteration e cur i w)))
            = store_calls (log w) @ [ai_spun_id i, iteration_id i @ ''_human_edited'']
          \<and> ai_spun_id i \<noteq> iteration_id i @ ''_human_edited''
          \<and> (accepting e \<and> ai_spun_id i \<notin> fst ` set (collection w)
               \<and> iteration_id i @ ''_human_edited'' \<notin> fst ` set (collection w) \<longrightarrow>
              collection (snd (iteration e cur i w))
                = collection w
                  @ [(ai_spun_id i,
                      \<lparr>document = spun,
                         meta = \<lparr>md_id = ai_spun_id i, md_version_type = ai_spun_tag i\<rparr>\<rparr>),
                     (iteration_id i @ ''_human_edited'',
                      \<lparr>document = join [CHR 0x0A] lines,
                         meta = \<lparr>md_id = iteration_id i @ ''_human_edited'',
                                 md_version_type = ''human_edited''\<rparr>\<rparr>)])))"
proof -
  have store: "prefix (collection w) (collection (store_content_in_chroma e cid t v w))"
    by (rule prefix_store) simp
  have checkpoint:
    "prefix (collection w) (collection (snd (human_in_the_loop_feedback e text chapter_id w)))"
    by (rule prefix_checkpoint) simp
  have run: "prefix (collection w) (collection (snd (main_with n e w)))"
    by (rule prefix_main_with) simp
  obtain l where l: "stores_between e w (snd (main_with n e w)) l"
      and sub: "subseq l (pipeline_ids n)"
    using stores_between_main_with by blast
  have "distinct l"
    using sub distinct_pipeline_ids by (rule subseq_distinct_list)
  then have calls: "\<exists>l. store_calls (log (snd (main_with n e w))) = store_calls (log w) @ l \<and> distinct l"
    using l by (auto simp: stores_between_def)
  have ids: "ai_spun_id i \<noteq> iteration_id i @ ''_human_edited''"
    using ai_spun_id_neq(2) [of i i] by (simp add: human_edited_id_def)
  have edit: "fst (human_in_the_loop_feedback e text chapter_id w) = Inr (Some (join [CHR 0x0A] lines))
      \<and> store_calls (log (snd (human_in_the_loop_feedback e text chapter_id w)))
          = store_calls (log w) @ [chapter_id @ ''_human_edited'']
      \<and> (chapter_id @ ''_human_edited'' \<notin> fst ` set (collection w)
           \<and> \<not> refuses e (add_calls w) (chapter_id @ ''_human_edited'') (join [CHR 0x0A] lines)
                 \<lparr>md_id = chapter_id @ ''_human_edited'', md_version_type = ''human_edited''\<rparr> \<longrightarrow>
          collection (snd (human_in_the_loop_feedback e text chapter_id w))
            = collection w @ [(chapter_id @ ''_human_edited'',
                \<lparr>document = join [CHR 0x0A] lines,
                   meta = \<lparr>md_id = chapter_id @ ''_human_edited'',
                           md_version_type = ''human_edited''\<rparr>\<rparr>)])
      \<and> (chapter_id @ ''_human_edited'' \<in> fst ` set (collection w) \<longrightarrow>
          collection (snd (human_in_the_loop_feedback e text chapter_id w)) = collection w)"
    if "stdin w = junk @ line # lines @ sentinel # rest"
      and "\<forall>l \<in> set junk. strip (lower l) \<notin> {''accept'', ''edit'', ''reject''}"
      and "strip (lower line) = ''edit''"
      and "\<forall>l \<in> set lines. upper (strip l) \<noteq> ''DONE''"
      and "upper (strip sentinel) = ''DONE''"
    unfolding checkpoint_edit_lines [OF that, of e "text" chapter_id]
    by (auto simp: store_calls_store collection_store add_if_absent_def newline_def)
  have iter: "store_calls (log (snd (iteration e cur i w)))
            = store_calls (log w) @ [ai_spun_id i, iteration_id i @ ''_human_edited'']
          \<and> (accepting e \<and> ai_spun_id i \<notin> fst ` set (collection w)
               \<and> iteration_id i @ ''_human_edited'' \<notin> fst ` set (collection w) \<longrightarrow>
              collection (snd (iteration e cur i w))
                = collection w
                  @ [(ai_spun_id i,
                      \<lparr>document = spun,
                         meta = \<lparr>md_id = ai_spun_id i, md_version_type = ai_spun_tag i\<rparr>\<rparr>),
                     (iteration_id i @ ''_human_edited'',
                      \<lparr>document = join [CHR 0x0A] lines,
                         meta = \<lparr>md_id = iteration_id i @ ''_human_edited'',
                                 md_version_type = ''human_edited''\<rparr>\<rparr>)])"
    if "stdin w = junk @ line # lines @ sentinel # rest"
      and "\<forall>l \<in> set junk. strip (lower l) \<notin> {''accept'', ''edit'', ''reject''}"
      and "strip (lower line) = ''edit''"
      and "\<forall>l \<in> set lines. upper (strip l) \<noteq> ''DONE''"
      and "upper (strip sentinel) = ''DONE''"
      and "cur \<noteq> []" and "generate e (gemini_calls w) (spin_prompt cur i) = Some spun"
      and "spun \<noteq> []"
    using iteration_edit [OF that(6,7,8,1,2,3,4,5)] ids
    by (auto simp: add_if_absent_def newline_def)
  show ?thesis
    using store checkpoint run calls ids edit iter
    by (intro conjI impI) (blast intro: map_of_prefix)+
qed

theorem stored_variants_never_change_witness:
  "map_of (collection (snd (main_with 2 sample_env older_world))) ''an_older_id''
     = Some \<lparr>document = ''An older text'',
              meta = \<lparr>md_id = ''an_older_id'', md_version_type = ''original''\<rparr>\<rparr>
   \<and> fst (human_in_the_loop_feedback sample_env ''A spun chapter'' ''ch_iter_1'' older_world)
       = Inr (Some (join [CHR 0x0A] [''A new line'']))
   \<and> collection (snd (human_in_the_loop_feedback sample_env ''A spun chapter'' ''ch_iter_1'' older_world))
       = collection older_world
         @ [(''ch_iter_1'' @ ''_human_edited'',
             \<lparr>document = join [CHR 0x0A] [''A new line''],
                meta = \<lparr>md_id = ''ch_iter_1'' @ ''_human_edited'',
                        md_version_type = ''human_edited''\<rparr>\<rparr>)]
   \<and> collection (snd (iteration sample_env ''Once'' 1 older_world))
       = collection older_world
         @ [(ai_spun_id 1,
             \<lparr>document = ''A spun chapter'',
                meta = \<lparr>md_id = ai_spun_id 1, md_version_type = ai_spun_tag 1\<rparr>\<rparr>),
            (iteration_id 1 @ ''_human_edited'',
             \<lparr>document = join [CHR 0x0A] [''A new line''],
                meta = \<lparr>md_id = iteration_id 1 @ ''_human_edited'',
                        md_version_type = ''human_edited''\<rparr>\<rparr>)]"
proof -
  have before: "map_of (collection older_world) ''an_older_id''
     = Some \<lparr>document = ''An older text'',
              meta = \<lparr>md_id = ''an_older_id'', md_version_type = ''original''\<rparr>\<rparr>"
    by (simp add: older_world_def)
  have lines: "stdin older_world = [] @ ''edit'' # [''A new line''] @ ''done'' # []"
    by (simp add: older_world_def)
  have junk: "\<forall>l \<in> set ([] :: string list). strip (lower l) \<notin> {''accept'', ''edit'', ''reject''}"
    by simp
  have choice: "strip (lower ''edit'') = ''edit''"
    by code_simp
  have body: "\<forall>l \<in> set [''A new line'']. upper (strip l) \<noteq> ''DONE''"
    by code_simp
  have sentinel: "upper (strip ''done'') = ''DONE''"
    by code_simp
  have fresh: "''ch_iter_1'' @ ''_human_edited'' \<notin> fst ` set (collection older_world)"
    by (simp add: older_world_def)
  have fresh_spun: "ai_spun_id 1 \<notin> fst ` set (collection older_world)"
    by code_simp
  have fresh_edit: "iteration_id 1 @ ''_human_edited'' \<notin> fst ` set (collection older_world)"
    by code_simp
  have taken: "\<not> refuses sample_env (add_calls older_world) (''ch_iter_1'' @ ''_human_edited'')
                   (join [CHR 0x0A] [''A new line''])
                   \<lparr>md_id = ''ch_iter_1'' @ ''_human_edited'', md_version_type = ''human_edited''\<rparr>"
    by (simp add: sample_env_def)
  have accepting: "accepting sample_env"
    by (simp add: accepting_def sample_env_def)
  have cur: "''Once'' \<noteq> []"
    by simp
  have spun: "generate sample_env (gemini_calls older_world) (spin_prompt ''Once'' 1)
                = Some ''A spun chapter''"
    by (simp add: sample_env_def older_world_def)
  have answer: "''A spun chapter'' \<noteq> []"
    by simp
  note th = stored_variants_never_change [of older_world "''an_older_id''"
       "\<lparr>document = ''An older text'',
          meta = \<lparr>md_id = ''an_older_id'', md_version_type = ''original''\<rparr>\<rparr>"
       sample_env "''k''" "''t''" "''v''" "''A spun chapter''" "''ch_iter_1''" 2
       "[]" "''edit''" "[''A new line'']" "''done''" "[]" "''Once''" 1 "''A spun chapter''"]
  show ?thesis
    using th before lines junk choice body sentinel fresh fresh_spun fresh_edit taken accepting
      cur spun answer
    by blast
qed

section \<open>The ids of the variants\<close>

text \<open>
  Claim C3, as stated, fails on the code. The checkpoint of iteration 1 is given the
  \<open>chapter_id\<close> \<open>gates_of_morning_ch1_iter_1\<close> and appends the stage to it, so an accepted
  text is stored under \<open>gates_of_morning_ch1_iter_1_final\<close>: the iteration comes before
  the stage label, not after it, and the id is not of the form
  \<open>{base}_{stage}[_iter_{n}]\<close> for the base \<open>gates_of_morning_ch1\<close> of the run.
\<close>

theorem variant_id_convention_counterexample:
  "''gates_of_morning_ch1_iter_1_final''
     \<in> fst ` set (collection (snd (main sample_env (sample_world [''accept'']))))
   \<and> \<not> follows_convention chapter_id_base ''gates_of_morning_ch1_iter_1_final''"
  by code_simp

lemma strip_prefix_Some: "strip_prefix p s = Some r \<longleftrightarrow> s = p @ r"
  by (induction p s rule: strip_prefix.induct) auto

lemma strip_prefix_case:
  "(case strip_prefix p s of None \<Rightarrow> False | Some r \<Rightarrow> Q r) \<longleftrightarrow> (\<exists>r. s = p @ r \<and> Q r)"
proof (cases "strip_prefix p s")
  case None
  have "\<not> (\<exists>r. s = p @ r)"
  proof
    assume "\<exists>r. s = p @ r"
    then obtain r where "s = p @ r" ..
    then have "strip_prefix p s = Some r"
      by (simp only: strip_prefix_Some)
    with None show False
      by simp
  qed
  then show ?thesis
    unfolding None option.case by blast
next
  case (Some r)
  then have s: "s = p @ r"
    by (simp only: strip_prefix_Some)
  have "(\<exists>r'. s = p @ r' \<and> Q r') \<longleftrightarrow> Q r"
    unfolding s by simp
  then show ?thesis
    unfolding Some option.case by (rule sym)
qed

lemma follows_convention_iff:
  "follows_convention b cid \<longleftrightarrow>
     (\<exists>stage \<in> set stage_labels. \<exists>rest. cid = (b @ ''_'' @ stage) @ rest \<and>
        (rest = [] \<or> (\<exists>n. rest = ''_iter_'' @ n \<and> is_decimal n)))"
  unfolding follows_convention_def list_ex_iff strip_prefix_case by (rule refl)

lemma original_fixes_base:
  assumes "follows_convention b ''gates_of_morning_ch1_original''"
  shows "b = ''gates_of_morning_ch1''"
proof -
  obtain stage rest where stage: "stage \<in> set stage_labels"
    and cid: "''gates_of_morning_ch1_original'' = (b @ ''_'' @ stage) @ rest"
    and rest: "rest = [] \<or> (\<exists>n. rest = ''_iter_'' @ n \<and> is_decimal n)"
    using assms unfolding follows_convention_iff by blast
  have r: "rev rest @ rev stage @ ''_'' @ rev b = rev ''gates_of_morning_ch1_original''"
    using arg_cong [OF cid, of rev] by simp
  have "rest = []"
  proof (rule ccontr)
    assume "rest \<noteq> []"
    then obtain n where n: "rest = ''_iter_'' @ n" and d: "is_decimal n"
      using rest by blast
    then obtain m c where mc: "n = m @ [c]"
      by (cases n rule: rev_cases) (auto simp: is_decimal_def)
    have "c \<in> set ''0123456789''"
      using d by (simp add: is_decimal_def mc)
    moreover have "c = CHR ''l''"
      using r by (simp add: n mc)
    ultimately show False
      by simp
  qed
  then show ?thesis
    using r stage by (auto simp: stage_labels_def rev_swap)
qed

text \<open>
  No other choice of the base helps: the id of the original fixes the base of a run, so
  no base makes both the id of the original and the id of the accepted text follow the
  convention.
\<close>

lemma no_base_for_a_run:
  "\<not> (follows_convention b ''gates_of_morning_ch1_original''
      \<and> follows_convention b ''gates_of_morning_ch1_iter_1_final'')"
proof
  assume a: "follows_convention b ''gates_of_morning_ch1_original''
      \<and> follows_convention b ''gates_of_morning_ch1_iter_1_final''"
  then have "b = ''gates_of_morning_ch1''"
    using original_fixes_base by blast
  moreover have "\<not> follows_convention ''gates_of_morning_ch1'' ''gates_of_morning_ch1_iter_1_final''"
    by code_simp
  ultimately show False
    using a by simp
qed

text \<open>
  Claim C3, amended. Every id for which a run of \<open>n\<close> iterations calls the store, and so
  every id that the run adds to the collection, is \<open>{base}_original\<close>,
  \<open>{base}_ai_spun_iter_{i}\<close>, \<open>{base}_iter_{i}_final\<close> or
  \<open>{base}_iter_{i}_human_edited\<close>, for an iteration index \<open>i\<close> from 1 to \<open>n\<close>: the original
  and the generated text carry the stage label first, the two outcomes of the checkpoint
  carry the iteration first and the stage label last. The run removes no id from the
  collection and adds none but these; with a client that refuses no record, the ids of the
  collection after the run are those it held before and those of the calls.
\<close>

theorem variant_ids_written:
  "\<exists>l. store_calls (log (snd (main_with n e w))) = store_calls (log w) @ l
      \<and> fst ` set (collection w) \<subseteq> fst ` set (collection (snd (main_with n e w)))
      \<and> fst ` set (collection (snd (main_with n e w))) \<subseteq> fst ` set (collection w) \<union> set l
      \<and> ((\<forall>k cid doc md. \<not> refuses e k cid doc md) \<longrightarrow>
           fst ` set (collection (snd (main_with n e w))) = fst ` set (collection w) \<union> set l)
      \<and> set l \<subseteq> {chapter_id_base @ ''_original''}
                \<union> (\<Union>i \<in> {1 .. n}. {chapter_id_base @ ''_ai_spun_iter_'' @ str_nat i,
                                     chapter_id_base @ ''_iter_'' @ str_nat i @ ''_final'',
                                     chapter_id_base @ ''_iter_'' @ str_nat i @ ''_human_edited''})"
proof -
  obtain l where l: "stores_between e w (snd (main_with n e w)) l"
      and sub: "subseq l (pipeline_ids n)"
    using stores_between_main_with by blast
  have shapes: "set l \<subseteq> {chapter_id_base @ ''_original''}
                \<union> (\<Union>i \<in> {1 .. n}. {chapter_id_base @ ''_ai_spun_iter_'' @ str_nat i,
                                     chapter_id_base @ ''_iter_'' @ str_nat i @ ''_final'',
                                     chapter_id_base @ ''_iter_'' @ str_nat i @ ''_human_edited''})"
    using subseq_set [OF sub] unfolding set_pipeline_ids .
  have calls: "store_calls (log (snd (main_with n e w))) = store_calls (log w) @ l"
    using l by (simp add: stores_between_def)
  have kept: "fst ` set (collection w) \<subseteq> fst ` set (collection (snd (main_with n e w)))"
    using l by (simp add: stores_between_def)
  have added: "fst ` set (collection (snd (main_with n e w))) \<subseteq> fst ` set (collection w) \<union> set l"
    using l by (simp add: stores_between_def)
  have all: "(\<forall>k cid doc md. \<not> refuses e k cid doc md) \<longrightarrow>
           fst ` set (collection (snd (main_with n e w))) = fst ` set (collection w) \<union> set l"
    using l by (simp add: stores_between_def accepting_def)
  show ?thesis
    using calls kept added all shapes by (intro exI [of _ l] conjI)
qed

theorem variant_ids_written_witness:
  "fst ` set (collection (snd (main_with 2 sample_env (sample_world [''accept'']))))
     = set [''gates_of_morning_ch1_original'', ''gates_of_morning_ch1_ai_spun_iter_1'',
            ''gates_of_morning_ch1_iter_1_final'']"
proof -
  define w' where "w' = snd (main_with 2 sample_env (sample_world [''accept'']))"
  define ids where "ids = [''gates_of_morning_ch1_original'', ''gates_of_morning_ch1_ai_spun_iter_1'',
        ''gates_of_morning_ch1_iter_1_final'']"
  have calls: "store_calls (log w') = ids"
    unfolding w'_def ids_def by code_simp
  have before: "store_calls (log (sample_world [''accept''])) = []"
    by (simp add: sample_world_def)
  have empty: "fst ` set (collection (sample_world [''accept''])) = {}"
    by (simp add: sample_world_def)
  have taken: "\<forall>k cid doc md. \<not> refuses sample_env k cid doc md"
    by (simp add: sample_env_def)
  note th = variant_ids_written [of 2 sample_env "sample_world [''accept'']", folded w'_def]
  from th obtain l where l: "store_calls (log w') = store_calls (log (sample_world [''accept''])) @ l"
    and all: "(\<forall>k cid doc md. \<not> refuses sample_env k cid doc md) \<longrightarrow>
           fst ` set (collection w') = fst ` set (collection (sample_world [''accept''])) \<union> set l"
    by (elim exE conjE)
  have "l = ids"
    using l unfolding calls before by simp
  moreover have "fst ` set (collection w') = fst ` set (collection (sample_world [''accept''])) \<union> set l"
    using all taken by (rule mp)
  ultimately have "fst ` set (collection w') = set ids"
    unfolding empty by simp
  then show ?thesis
    unfolding w'_def ids_def .
qed

section \<open>The fetcher\<close>

lemma join_Cons: "join [c] (x # xs) = x @ concat (map (\<lambda>y. c # y) xs)"
  by (induction xs arbitrary: x) simp_all

text \<open>
  Claim C9. For every page on which the primary selector \<open>div.mw-parser-output p\<close> matches
  no element, the fetcher takes the elements of the generic selector \<open>body p\<close> instead, and
  the text it returns is their inner texts in document order, joined by newlines: the
  first text, then each further text after a newline.
\<close>

theorem scrape_falls_back_to_paragraphs:
  assumes "browse e url = Loaded query_selector_all"
    and "query_selector_all ''div.mw-parser-output p'' = []"
  shows "fst (scrape_and_screenshot e url w)
           = Some (join [CHR 0x0A] (query_selector_all ''body p''))
       \<and> join [CHR 0x0A] (query_selector_all ''body p'')
           = (case query_selector_all ''body p'' of
                [] \<Rightarrow> []
              | p # ps \<Rightarrow> p @ concat (map (\<lambda>q. CHR 0x0A # q) ps))"
  using assms
  by (simp add: scrape_and_screenshot_def Let_def newline_def join_Cons split: list.splits)

theorem scrape_falls_back_to_paragraphs_witness:
  "fst (scrape_and_screenshot sample_env target_url (sample_world []))
     = Some (''Once'' @ [CHR 0x0A] @ ''upon a time'')"
proof -
  have loaded: "browse sample_env target_url = Loaded sample_page"
    by (simp add: sample_env_def)
  have none: "sample_page ''div.mw-parser-output p'' = []"
    by (simp add: sample_page_def)
  show ?thesis
    using scrape_falls_back_to_paragraphs [OF loaded none, of "sample_world []"]
    by (simp add: sample_page_def)
qed

section \<open>The search of the demonstration\<close>

lemma search_default:
  "fst (semantic_search_chroma e q None w) =
     Some \<lparr>documents = [map (\<lambda>r. document (snd r))
                          (take 1 (sort_key (\<lambda>r. distance e q (document (snd r)))
                                  (sort_key (\<lambda>r. tie_break e (fst r)) (collection w))))],
           metadatas = [map (\<lambda>r. meta (snd r))
                          (take 1 (sort_key (\<lambda>r. distance e q (document (snd r)))
                                  (sort_key (\<lambda>r. tie_break e (fst r)) (collection w))))],
           distances = [map (\<lambda>r. distance e q (document (snd r)))
                          (take 1 (sort_key (\<lambda>r. distance e q (document (snd r)))
                                  (sort_key (\<lambda>r. tie_break e (fst r)) (collection w))))]\<rparr>"
  by (simp add: semantic_search_chroma_def collection_query_def Let_def)

lemma print_search_default:
  "print_search (fst (semantic_search_chroma e q None w)) = Inr (Results rs) \<Longrightarrow>
   length rs \<le> 1 \<and> list_all (\<lambda>r. length (content_snippet r) \<le> 1) rs"
  by (auto simp: search_default print_search_def subscript_def split: sum.splits if_splits)

lemma nearest_first:
  fixes f :: "'a \<Rightarrow> 'b::linorder"
  assumes "h \<in> set (take 1 (sort_key f c))" and "r \<in> set c"
  shows "f h \<le> f r"
proof (cases "sort_key f c")
  case Nil
  then show ?thesis using assms by simp
next
  case (Cons y ys)
  have "sorted (map f (y # ys))"
    using sorted_sort_key [of f c] Cons by simp
  moreover have "r \<in> set (y # ys)"
    using assms(2) set_sort [of f c] Cons by simp
  moreover have "h = y"
    using assms(1) Cons by simp
  ultimately show ?thesis by auto
qed

text \<open>
  Claim C10. The search helper, called as the orchestrator calls it, without a result count,
  asks for one result: its answer holds one list of hits, of at most one document, and that
  document is a nearest one of the collection. So what a run prints for the search holds
  at most one block, with at most one document, however many variants the collection holds.
\<close>

theorem search_report_at_most_one:
  "(\<exists>res hits. fst (semantic_search_chroma e search_query None w) = Some res
        \<and> documents res = [hits] \<and> length hits \<le> 1
        \<and> (\<forall>h \<in> set hits. \<forall>r \<in> set (collection w).
              distance e search_query h \<le> distance e search_query (document (snd r))))
   \<and> (fst (main_with n e w) = Inr (Completed (Results rs)) \<longrightarrow>
        length rs \<le> 1 \<and> list_all (\<lambda>r. length (content_snippet r) \<le> 1) rs)"
proof -
  have "fst (main_with n e w) = Inr (Completed (Results rs)) \<Longrightarrow>
        \<exists>w'. print_search (fst (semantic_search_chroma e search_query None w')) = Inr (Results rs)"
    by (auto simp: main_with_unfold Let_def split: if_splits sum.splits simp del: upt_Suc)
  then have report: "fst (main_with n e w) = Inr (Completed (Results rs)) \<longrightarrow>
        length rs \<le> 1 \<and> list_all (\<lambda>r. length (content_snippet r) \<le> 1) rs"
    using print_search_default by blast
  define hits where
    "hits = take 1 (sort_key (\<lambda>r. distance e search_query (document (snd r)))
                      (sort_key (\<lambda>r. tie_break e (fst r)) (collection w)))"
  have nearest: "distance e search_query (document (snd h)) \<le> distance e search_query (document (snd r))"
    if "h \<in> set hits" and "r \<in> set (collection w)" for h r
  proof -
    have "r \<in> set (sort_key (\<lambda>r. tie_break e (fst r)) (collection w))"
      using that(2) by simp
    with that(1) show ?thesis
      unfolding hits_def by (rule nearest_first)
  qed
  have "\<exists>res. fst (semantic_search_chroma e search_query None w) = Some res
        \<and> documents res = [map (\<lambda>r. document (snd r)) hits]"
    by (simp add: search_default hits_def)
  moreover have "length (map (\<lambda>r. document (snd r)) hits) \<le> 1"
    by (simp add: hits_def)
  moreover have "\<forall>h \<in> set (map (\<lambda>r. document (snd r)) hits). \<forall>r \<in> set (collection w).
              distance e search_query h \<le> distance e search_query (document (snd r))"
    using nearest by auto
  ultimately show ?thesis
    using report by blast
qed

theorem search_report_at_most_one_witness:
  "fst (main_with 2 sample_env (sample_world [''edit'', ''Short'', ''DONE'']))
     = Inr (Completed (Results
         [\<lparr>result_number = 1, result_distance = 5,
           result_id = ''gates_of_morning_ch1_iter_1_human_edited'',
           result_version_type = ''human_edited'',
           content_snippet = [''Short'']\<rparr>]))
   \<and> length (collection (snd (main_with 2 sample_env (sample_world [''edit'', ''Short'', ''DONE''])))) = 3
   \<and> length [\<lparr>result_number = 1, result_distance = 5::nat,
           result_id = ''gates_of_morning_ch1_iter_1_human_edited'',
           result_version_type = ''human_edited'',
           content_snippet = [''Short'']\<rparr>] \<le> 1"
proof -
  have run: "fst (main_with 2 sample_env (sample_world [''edit'', ''Short'', ''DONE'']))
     = Inr (Completed (Results
         [\<lparr>result_number = 1, result_distance = 5,
           result_id = ''gates_of_morning_ch1_iter_1_human_edited'',
           result_version_type = ''human_edited'',
           content_snippet = [''Short'']\<rparr>]))"
    by code_simp
  have stored: "length (collection (snd (main_with 2 sample_env (sample_world [''edit'', ''Short'', ''DONE''])))) = 3"
    by code_simp
  show ?thesis
    using search_report_at_most_one [of sample_env "sample_world [''edit'', ''Short'', ''DONE'']" 2
       "[\<lparr>result_number = 1, result_distance = 5,
           result_id = ''gates_of_morning_ch1_iter_1_human_edited'',
           result_version_type = ''human_edited'',
           content_snippet = [''Short'']\<rparr>]"] run stored
    by simp
qed

section \<open>A failure of the transformer\<close>

lemma spin_exits_append [simp]: "spin_exits (l @ l') = spin_exits l @ spin_exits l'"
  by (simp add: spin_exits_def)

lemma spin_exits_Nil [simp]: "spin_exits [] = []"
  by (simp add: spin_exits_def)

lemma spin_exits_Cons [simp]: "spin_exits (x # l) = spin_exit x @ spin_exits l"
  by (simp add: spin_exits_def)


lemma spin_exits_store [simp]:
  "spin_exits (log (store_content_in_chroma e cid t v w)) = spin_exits (log w)"
  by (simp add: store_content_in_chroma_def split: sum.splits)

lemma spin_exits_ai_spin [simp]:
  "spin_exits (log (snd (ai_spin_chapter e t i w))) = spin_exits (log w)"
  by (simp add: ai_spin_chapter_def generate_content_async_def Let_def split: option.splits)

lemma spin_exits_ai_review [simp]:
  "spin_exits (log (snd (ai_review_chapter e t w))) = spin_exits (log w)"
  by (simp add: ai_review_chapter_def generate_content_async_def Let_def split: option.splits)

lemma spin_exits_scrape [simp]:
  "spin_exits (log (snd (scrape_and_screenshot e url w))) = spin_exits (log w)"
  by (simp add: scrape_and_screenshot_def Let_def split: browse_result.splits)

lemma spin_exits_search [simp]:
  "spin_exits (log (snd (semantic_search_chroma e q n w))) = spin_exits (log w)"
  by (simp add: semantic_search_chroma_def Let_def split: sum.splits)

lemma spin_exits_checkpoint_loop [simp]:
  "spin_exits (log (snd (checkpoint_loop e t cid ls w))) = spin_exits (log w)"
  by (induction ls) (simp_all add: Let_def split: sum.splits prod.splits)

lemma spin_exits_checkpoint [simp]:
  "spin_exits (log (snd (human_in_the_loop_feedback e t cid w))) = spin_exits (log w)"
  by (simp add: human_in_the_loop_feedback_def)













section \<open>An edit without lines\<close>

lemma checkpoint_empty_edit:
  assumes "stdin w = junk @ line # sentinel # rest"
    and "\<forall>l \<in> set junk. strip (lower l) \<notin> {''accept'', ''edit'', ''reject''}"
    and "strip (lower line) = ''edit''"
    and "upper (strip sentinel) = ''DONE''"
  shows "human_in_the_loop_feedback e t cid w
           = (Inr (Some []),
              store_content_in_chroma e (cid @ ''_human_edited'') [] ''human_edited''
                (logging (HumanEdited cid) (w\<lparr>stdin := rest\<rparr>)))"
  using assms by (simp add: human_in_the_loop_feedback_def checkpoint_skip Let_def)

text \<open>
  Claim C1. The generated text of an iteration is not empty, and the operator answers the
  checkpoint with \<open>edit\<close> and at once with the sentinel. Then the checkpoint returns the
  empty string, not \<open>None\<close>, and stores it under \<open>{chapter_id}_human_edited\<close>, as the claim
  says. But the orchestrator does not go on: it tests \<open>if human_decision_text:\<close>, which the
  empty string fails as \<open>None\<close> does, so it logs a rejection and leaves the loop; the
  current text stays what it was, and the iterations that remain are not run.
\<close>

theorem empty_edit_ends_the_loop:
  assumes "cur \<noteq> []"
    and "generate e (gemini_calls w) (spin_prompt cur i) = Some spun"
    and "spun \<noteq> []"
    and "stdin w = junk @ line # sentinel # rest"
    and "\<forall>l \<in> set junk. strip (lower l) \<notin> {''accept'', ''edit'', ''reject''}"
    and "strip (lower line) = ''edit''"
    and "upper (strip sentinel) = ''DONE''"
  shows "(\<exists>w4. snd (iteration e cur i w)
                 = logging (RejectedExit i) (snd (human_in_the_loop_feedback e spun (iteration_id i) w4))
             \<and> fst (human_in_the_loop_feedback e spun (iteration_id i) w4) = Inr (Some [])
             \<and> store_calls (log (snd (human_in_the_loop_feedback e spun (iteration_id i) w4)))
                 = store_calls (log w4) @ [iteration_id i @ ''_human_edited''])
       \<and> fst (iteration e cur i w) = Break
       \<and> main_loop e cur (i # is) w = (Inr cur, snd (iteration e cur i w))"
proof -
  define s where "s = ai_spin_chapter e cur i (logging (StartingIteration i) w)"
  define w4 where "w4 = snd (ai_review_chapter e spun
        (store_content_in_chroma e (ai_spun_id i) spun (ai_spun_tag i) (snd s)))"
  have spun: "fst s = Some spun"
    using assms(1,2) by (simp add: s_def fst_ai_spin)
  have lines: "stdin w4 = junk @ line # sentinel # rest"
    using assms(4) by (simp add: w4_def s_def)
  have h: "human_in_the_loop_feedback e spun (iteration_id i) w4
           = (Inr (Some []),
              store_content_in_chroma e (iteration_id i @ ''_human_edited'') [] ''human_edited''
                (logging (HumanEdited (iteration_id i)) (w4\<lparr>stdin := rest\<rparr>)))"
    using lines assms(5,6,7) by (rule checkpoint_empty_edit)
  have it: "iteration e cur i w
      = (Break, logging (RejectedExit i) (snd (human_in_the_loop_feedback e spun (iteration_id i) w4)))"
    using assms(3)
    by (simp add: iteration_unfold s_def [symmetric] spun Let_def w4_def [symmetric] h truthy_def)
  have calls: "store_calls (log (snd (human_in_the_loop_feedback e spun (iteration_id i) w4)))
                 = store_calls (log w4) @ [iteration_id i @ ''_human_edited'']"
    by (simp add: h store_calls_store)
  have checkpoint:
    "\<exists>w4. snd (iteration e cur i w)
             = logging (RejectedExit i) (snd (human_in_the_loop_feedback e spun (iteration_id i) w4))
         \<and> fst (human_in_the_loop_feedback e spun (iteration_id i) w4) = Inr (Some [])
         \<and> store_calls (log (snd (human_in_the_loop_feedback e spun (iteration_id i) w4)))
             = store_calls (log w4) @ [iteration_id i @ ''_human_edited'']"
    using calls by (intro exI [of _ w4]) (simp add: it h)
  have loop: "main_loop e cur (i # is) w = (Inr cur, snd (iteration e cur i w))"
    by (simp add: main_loop_Cons it del: main_loop.simps)
  show ?thesis
    using checkpoint loop by (simp add: it)
qed

theorem empty_edit_ends_the_loop_witness:
  "fst (iteration steady_env ''Once upon a time'' 1 (sample_world [''edit'', ''DONE''])) = Break
   \<and> main_loop steady_env ''Once upon a time'' [1, 2] (sample_world [''edit'', ''DONE''])
       = (Inr ''Once upon a time'',
          snd (iteration steady_env ''Once upon a time'' 1 (sample_world [''edit'', ''DONE''])))
   \<and> log (snd (main steady_env (sample_world [''edit'', ''DONE''])))
       = [CollectionReady, Navigating target_url, ScreenshotSaved, Scraped 16,
          Stored ''gates_of_morning_ch1_original'' ''original'',
          StartingIteration 1, SendingSpin 1, SpinComplete 14,
          Stored ''gates_of_morning_ch1_ai_spun_iter_1'' ''ai_spun_iter_1'',
          SendingReview, ReviewComplete,
          HumanEdited ''gates_of_morning_ch1_iter_1'',
          Stored ''gates_of_morning_ch1_iter_1_human_edited'' ''human_edited'',
          RejectedExit 1,
          SearchCompleted search_query, WorkflowComplete]
   \<and> map (\<lambda>r. (fst r, document (snd r))) (collection (snd (main steady_env (sample_world [''edit'', ''DONE'']))))
       = [(''gates_of_morning_ch1_original'', ''Once'' @ [CHR 0x0A] @ ''upon a time''),
          (''gates_of_morning_ch1_ai_spun_iter_1'', ''A spun chapter''),
          (''gates_of_morning_ch1_iter_1_human_edited'', [])]"
proof -
  have cur: "''Once upon a time'' \<noteq> []"
    by simp
  have spun: "generate steady_env (gemini_calls (sample_world [''edit'', ''DONE'']))
                (spin_prompt ''Once upon a time'' 1) = Some ''A spun chapter''"
    by (simp add: steady_env_def sample_env_def)
  have nonempty: "''A spun chapter'' \<noteq> []"
    by simp
  have lines: "stdin (sample_world [''edit'', ''DONE'']) = [] @ ''edit'' # ''DONE'' # []"
    by (simp add: sample_world_def)
  have junk: "\<forall>l \<in> set []. strip (lower l) \<notin> {''accept'', ''edit'', ''reject''}"
    by simp
  have edit: "strip (lower ''edit'') = ''edit''"
    by code_simp
  have sentinel: "upper (strip ''DONE'') = ''DONE''"
    by code_simp
  have run: "log (snd (main steady_env (sample_world [''edit'', ''DONE''])))
       = [CollectionReady, Navigating target_url, ScreenshotSaved, Scraped 16,
          Stored ''gates_of_morning_ch1_original'' ''original'',
          StartingIteration 1, SendingSpin 1, SpinComplete 14,
          Stored ''gates_of_morning_ch1_ai_spun_iter_1'' ''ai_spun_iter_1'',
          SendingReview, ReviewComplete,
          HumanEdited ''gates_of_morning_ch1_iter_1'',
          Stored ''gates_of_morning_ch1_iter_1_human_edited'' ''human_edited'',
          RejectedExit 1,
          SearchCompleted search_query, WorkflowComplete]"
    by code_simp
  have stored: "map (\<lambda>r. (fst r, document (snd r))) (collection (snd (main steady_env (sample_world [''edit'', ''DONE'']))))
       = [(''gates_of_morning_ch1_original'', ''Once'' @ [CHR 0x0A] @ ''upon a time''),
          (''gates_of_morning_ch1_ai_spun_iter_1'', ''A spun chapter''),
          (''gates_of_morning_ch1_iter_1_human_edited'', [])]"
    by code_simp
  show ?thesis
    using empty_edit_ends_the_loop [OF cur spun nonempty lines junk edit sentinel, of "[2]"] run stored
    by simp
qed

end
